theory Spec2Isabelle
  imports Main "HOL-Library.AList" "HOL-Library.Sublist"
begin

section \<open>Results of asynchronous operations\<close>

text \<open>
  A promise that settles is modelled by its outcome: \<open>Inl e\<close> for a rejection with the
  thrown value \<open>e\<close>, \<open>Inr v\<close> for a resolution with \<open>v\<close>.  The constructors name the
  JavaScript error classes that occur in the sources: \<open>Error\<close> is \<open>new Error(message)\<close>,
  \<open>TypeError\<close> is what the engine throws on a property read of \<open>undefined\<close>,
  \<open>SyntaxError\<close> is what \<open>new RegExp\<close> throws, \<open>SystemError\<close> stands for the errors of
  node's network and file-system layer, \<open>RequestError\<close> for a failed GitHub API request.
  \<open>Unmodelled\<close> is not an error of the program: it is the answer of this model where an
  input leaves the fragment of the regular-expression language that is modelled below,
  and no statement draws a conclusion from it.  Strings are lists of 8-bit characters;
  the tags, names and paths of the statements are ASCII.
\<close>

datatype error =
    Error string
  | TypeError string
  | SyntaxError string
  | SystemError string
  | RequestError string
  | Unmodelled string

fun message :: "error \<Rightarrow> string" where
  "message (Error m) = m"
| "message (TypeError m) = m"
| "message (SyntaxError m) = m"
| "message (SystemError m) = m"
| "message (RequestError m) = m"
| "message (Unmodelled m) = m"

text \<open>Template literals print a number in decimal.\<close>

fun show_nat :: "nat \<Rightarrow> string" where
  "show_nat n = (if n < 10 then [''0123456789'' ! n]
                 else show_nat (n div 10) @ [''0123456789'' ! (n mod 10)])"

declare show_nat.simps [simp del]

abbreviation newline :: char where
  "newline \<equiv> CHR 0x0A"

abbreviation dquote :: char where
  "dquote \<equiv> CHR 0x22"

abbreviation backslash :: char where
  "backslash \<equiv> CHR 0x5C"


section \<open>HTTP messages\<close>

text \<open>
  \<open>OutgoingHttpHeaders\<close> is an object from header names to values; the order of the
  keys is the insertion order, so it is an association list; the values the sources
  put there are strings.  In an incoming message node delivers a header either as one
  string or (for \<open>set-cookie\<close>) as an array.
\<close>

type_synonym OutgoingHttpHeaders = "(string \<times> string) list"

datatype header_value = Single string | Multi "string list"

type_synonym IncomingHttpHeaders = "(string \<times> header_value) list"

record IncomingMessage =
  statusCode :: "nat option"
  statusMessage :: "string option"
  headers :: IncomingHttpHeaders
  body :: string

text \<open>
  \<open>res.headers.location\<close>: a string, or undefined when the header is absent (node
  never delivers this header as an array).
\<close>

definition location :: "IncomingHttpHeaders \<Rightarrow> string option" where
  "location hs = (case map_of hs ''location'' of Some (Single l) \<Rightarrow> Some l | _ \<Rightarrow> None)"

text \<open>A string is truthy unless it is empty; undefined is falsy.\<close>

definition truthy :: "string option \<Rightarrow> bool" where
  "truthy v = (case v of None \<Rightarrow> False | Some s \<Rightarrow> s \<noteq> [])"

subsection \<open>\<open>JSON.stringify(headers, null, 2)\<close>\<close>

definition hex_digit :: "nat \<Rightarrow> char" where
  "hex_digit n = ''0123456789abcdef'' ! n"

definition json_char :: "char \<Rightarrow> string" where
  "json_char c =
     (if c = dquote then [backslash, dquote]
      else if c = backslash then [backslash, backslash]
      else if c = CHR 0x08 then [backslash, CHR ''b'']
      else if c = CHR 0x0C then [backslash, CHR ''f'']
      else if c = newline then [backslash, CHR ''n'']
      else if c = CHR 0x0D then [backslash, CHR ''r'']
      else if c = CHR 0x09 then [backslash, CHR ''t'']
      else if (of_char c :: nat) < 32
        then [backslash, CHR ''u'', CHR ''0'', CHR ''0'',
              hex_digit (of_char c div 16), hex_digit (of_char c mod 16)]
      else [c])"

definition json_string :: "string \<Rightarrow> string" where
  "json_string s = [dquote] @ concat (map json_char s) @ [dquote]"

fun join :: "string \<Rightarrow> string list \<Rightarrow> string" where
  "join sep [] = []"
| "join sep [x] = x"
| "join sep (x # y # ys) = x @ sep @ join sep (y # ys)"

definition json_value :: "header_value \<Rightarrow> string" where
  "json_value v =
     (case v of
        Single s \<Rightarrow> json_string s
      | Multi [] \<Rightarrow> ''[]''
      | Multi xs \<Rightarrow>
          ''['' @ [newline]
          @ join ('','' @ [newline]) (map (\<lambda>x. ''    '' @ json_string x) xs)
          @ [newline] @ ''  ]'')"

definition JSON_stringify :: "IncomingHttpHeaders \<Rightarrow> string" where
  "JSON_stringify hs =
     (if hs = [] then ''{}''
      else ''{'' @ [newline]
           @ join ('','' @ [newline])
               (map (\<lambda>(k, v). ''  '' @ json_string k @ '': '' @ json_value v) hs)
           @ [newline] @ ''}'')"


section \<open>Paths (\<open>node:path\<close>, POSIX flavour)\<close>

fun split_on :: "char \<Rightarrow> string \<Rightarrow> string list" where
  "split_on d [] = [[]]"
| "split_on d (c # cs) =
     (if c = d then [] # split_on d cs
      else (case split_on d cs of [] \<Rightarrow> [[c]] | x # xs \<Rightarrow> (c # x) # xs))"

text \<open>\<open>normalizeString\<close>: one step per path segment.\<close>

definition normalize_step :: "bool \<Rightarrow> string \<Rightarrow> string list \<Rightarrow> string list" where
  "normalize_step allowAboveRoot seg res =
     (if seg = [] \<or> seg = ''.'' then res
      else if seg = ''..'' then
        (if res \<noteq> [] \<and> last res \<noteq> ''..'' then butlast res
         else if allowAboveRoot then res @ [''..''] else res)
      else res @ [seg])"

definition normalize :: "string \<Rightarrow> string" where
  "normalize p =
     (if p = [] then ''.''
      else
        let isAbsolute = (hd p = CHR ''/'');
            trailingSeparator = (last p = CHR ''/'');
            q = join ''/'' (fold (normalize_step (\<not> isAbsolute)) (split_on CHR ''/'' p) [])
        in if q = [] then (if isAbsolute then ''/'' else if trailingSeparator then ''./'' else ''.'')
           else (if isAbsolute then ''/'' else []) @ q @ (if trailingSeparator then ''/'' else []))"

definition path_join :: "string list \<Rightarrow> string" where
  "path_join args =
     (let joined = join ''/'' (filter (\<lambda>a. a \<noteq> []) args)
      in if joined = [] then ''.'' else normalize joined)"

definition basename :: "string \<Rightarrow> string" where
  "basename p = rev (takeWhile (\<lambda>c. c \<noteq> CHR ''/'') (dropWhile (\<lambda>c. c = CHR ''/'') (rev p)))"

definition dirname :: "string \<Rightarrow> string" where
  "dirname p =
     (if p = [] then ''.''
      else
        let hasRoot = (hd p = CHR ''/'');
            r = dropWhile (\<lambda>c. c \<noteq> CHR ''/'') (dropWhile (\<lambda>c. c = CHR ''/'') (rev (tl p)))
        in if r = [] then (if hasRoot then ''/'' else ''.'')
           else if hasRoot \<and> tl r = [] then ''//''
           else hd p # rev (tl r))"


section \<open>Regular expressions\<close>

text \<open>
  The engine's \<open>RegExp\<close> is modelled for the patterns built from literal characters,
  \<open>.\<close>, escaped syntax characters, capturing groups, \<open>|\<close> and the greedy \<open>?\<close>, without
  flags.  A pattern that uses anything else (classes, \<open>*\<close>, \<open>+\<close>, braces, anchors, other
  escapes, non-capturing groups, lazy quantifiers, \<open>/\<close> or a line terminator, which
  \<open>source\<close> would escape) compiles to \<open>Unmodelled\<close>.
\<close>

datatype regex =
    Empty
  | Chr char
  | Dot
  | Cat regex regex
  | Alt regex regex
  | Opt regex
  | Group nat regex

record RegExp =
  source :: string
  matcher :: regex

fun cat_list :: "regex list \<Rightarrow> regex" where
  "cat_list [] = Empty"
| "cat_list [r] = r"
| "cat_list (r # rs) = Cat r (cat_list rs)"

fun alt_list :: "regex list \<Rightarrow> regex" where
  "alt_list [] = Empty"
| "alt_list [r] = r"
| "alt_list (r # rs) = Alt r (alt_list rs)"

definition disjunction :: "regex list \<Rightarrow> regex list \<Rightarrow> regex" where
  "disjunction alts terms = alt_list (alts @ [cat_list terms])"

definition syntax_characters :: "char set" where
  "syntax_characters = set ''^$.*+?()[]{}|'' \<union> {backslash}"

definition unmodelled_characters :: "char set" where
  "unmodelled_characters = set ''*+{}[]^$/'' \<union> {newline, CHR 0x0D}"

text \<open>
  The parser reads the pattern from left to right.  Its state: the number of the next
  capturing group (groups are numbered by their opening parenthesis), whether the last
  term may still take a quantifier, and one frame per open group, innermost first,
  holding the group's number, its finished alternatives and the terms of the current one.
\<close>

type_synonym frame = "nat \<times> regex list \<times> regex list"

fun parse :: "string \<Rightarrow> nat \<Rightarrow> bool \<Rightarrow> frame list \<Rightarrow> error + regex" where
  "parse [] n q st =
     (case st of
        [(g, alts, terms)] \<Rightarrow> Inr (disjunction alts terms)
      | _ \<Rightarrow> Inl (SyntaxError ''Unterminated group''))"
| "parse (c # cs) n q st =
     (case st of
        [] \<Rightarrow> Inl (SyntaxError ''Unmatched )'')
      | (g, alts, terms) # outer \<Rightarrow>
          if c = CHR ''('' then
            (case cs of
               d # ds \<Rightarrow> if d = CHR ''?'' then Inl (Unmodelled ''(?'')
                         else parse cs (Suc n) False ((n, [], []) # st)
             | [] \<Rightarrow> parse cs (Suc n) False ((n, [], []) # st))
          else if c = CHR '')'' then
            (case outer of
               [] \<Rightarrow> Inl (SyntaxError ''Unmatched )'')
             | (g', alts', terms') # outer' \<Rightarrow>
                 parse cs n True ((g', alts', terms' @ [Group g (disjunction alts terms)]) # outer'))
          else if c = CHR ''|'' then
            parse cs n False ((g, alts @ [cat_list terms], []) # outer)
          else if c = CHR ''?'' then
            (if terms = [] then Inl (SyntaxError ''Nothing to repeat'')
             else if q then parse cs n False ((g, alts, butlast terms @ [Opt (last terms)]) # outer)
             else Inl (Unmodelled ''??''))
          else if c = backslash then
            (case cs of
               [] \<Rightarrow> Inl (SyntaxError ''escape at end of pattern'')
             | d # ds \<Rightarrow>
                 if d \<in> syntax_characters then parse ds n True ((g, alts, terms @ [Chr d]) # outer)
                 else Inl (Unmodelled [backslash, d]))
          else if c = CHR ''.'' then parse cs n True ((g, alts, terms @ [Dot]) # outer)
          else if c \<in> unmodelled_characters then Inl (Unmodelled [c])
          else parse cs n True ((g, alts, terms @ [Chr c]) # outer))"

text \<open>\<open>new RegExp(pattern)\<close>; the \<open>source\<close> of the empty pattern is \<open>(?:)\<close>.\<close>

definition new_RegExp :: "string \<Rightarrow> error + RegExp" where
  "new_RegExp p =
     (case parse p 1 False [(0, [], [])] of
        Inl e \<Rightarrow> Inl e
      | Inr r \<Rightarrow> Inr \<lparr>source = (if p = [] then ''(?:)'' else p), matcher = r\<rparr>)"

text \<open>
  The backtracking matcher, in continuation-passing style as in the language
  definition: \<open>k\<close> is what has to match after the term; the captures are threaded, so a
  failed alternative leaves none behind.  \<open>.\<close> matches every character but a line
  terminator; an optional term that matched the empty string is not taken.
\<close>

type_synonym captures = "nat \<rightharpoonup> string"

fun matches :: "regex \<Rightarrow> string \<Rightarrow> captures \<Rightarrow> (string \<Rightarrow> captures \<Rightarrow> captures option) \<Rightarrow> captures option" where
  "matches Empty s c k = k s c"
| "matches (Chr a) s c k = (case s of [] \<Rightarrow> None | x # xs \<Rightarrow> if x = a then k xs c else None)"
| "matches Dot s c k =
     (case s of [] \<Rightarrow> None
      | x # xs \<Rightarrow> if x = newline \<or> x = CHR 0x0D then None else k xs c)"
| "matches (Cat r1 r2) s c k = matches r1 s c (\<lambda>s' c'. matches r2 s' c' k)"
| "matches (Alt r1 r2) s c k =
     (case matches r1 s c k of Some m \<Rightarrow> Some m | None \<Rightarrow> matches r2 s c k)"
| "matches (Opt r) s c k =
     (case matches r s c (\<lambda>s' c'. if length s' = length s then None else k s' c') of
        Some m \<Rightarrow> Some m
      | None \<Rightarrow> k s c)"
| "matches (Group g r) s c k =
     matches r s c (\<lambda>s' c'. k s' (c'(g \<mapsto> take (length s - length s') s)))"

text \<open>
  \<open>str.match(regexp)\<close> without the global flag: the leftmost position at which the
  pattern matches; the result maps 0 to the matched text and each group that took part
  to its text, and is \<open>None\<close> for \<open>null\<close>.
\<close>

fun match :: "string \<Rightarrow> regex \<Rightarrow> captures option" where
  "match [] r = matches r [] Map.empty (\<lambda>s' c. Some (c(0 \<mapsto> [])))"
| "match (x # xs) r =
     (case matches r (x # xs) Map.empty
             (\<lambda>s' c. Some (c(0 \<mapsto> take (length (x # xs) - length s') (x # xs)))) of
        Some m \<Rightarrow> Some m
      | None \<Rightarrow> match xs r)"


section \<open>GitHub data\<close>

text \<open>The fields of the REST responses that the sources read.\<close>

record GitHubRelease =
  release_id :: nat
  release_tag_name :: string

record ReleaseAsset =
  asset_name :: string
  asset_url :: string

record WorkflowRun =
  run_id :: nat
  run_number :: nat
  run_status :: string
  run_conclusion :: "string option"

record Artifact =
  artifact_id :: nat
  artifact_name :: string

record URL =
  href :: string
  host :: string
  pathname :: string

text \<open>The requests to the GitHub API, as they are logged.\<close>

datatype api_call =
    ListReleases string string
  | ListReleaseAssets string string nat
  | GetRef string string string
  | ListWorkflowRuns string string string nat string
  | ListWorkflowRunArtifacts string string nat
  | DownloadArtifact string string nat


section \<open>The environment: network, file system, GitHub\<close>

text \<open>
  What the surroundings answer is a parameter of every operation.  \<open>https_request\<close>
  gives, for a URL and the request headers, either a transport error or the response;
  \<open>writable\<close> tells whether a write to a path finishes, \<open>mkdir\<close> whether a directory
  can be created (recursively); \<open>temp_name\<close> is the name of the n-th temporary directory;
  \<open>parse_URL\<close> is the runtime's URL parser and \<open>archive_entries\<close> its archive decoder.
  The GitHub fields are the answers of the REST endpoints to the client given first
  (a client is identified by the key under which it is pooled); \<open>workflow_runs\<close> is the
  run history of a workflow, newest first.
\<close>

datatype reply = Failed error | Responded IncomingMessage

record env =
  https_request :: "string \<Rightarrow> OutgoingHttpHeaders \<Rightarrow> reply"
  writable :: "string \<Rightarrow> bool"
  mkdir :: "string \<Rightarrow> bool"
  temp_name :: "nat \<Rightarrow> string"
  default_destination :: string
  parse_URL :: "string \<Rightarrow> URL option"
  archive_entries :: "string \<Rightarrow> (string \<times> string) list option"
  listReleases :: "string \<Rightarrow> string \<Rightarrow> string \<Rightarrow> error + GitHubRelease list"
  listReleaseAssets :: "string \<Rightarrow> string \<Rightarrow> string \<Rightarrow> nat \<Rightarrow> error + ReleaseAsset list"
  getRef :: "string \<Rightarrow> string \<Rightarrow> string \<Rightarrow> string \<Rightarrow> error + string"
  workflow_runs :: "string \<Rightarrow> string \<Rightarrow> string \<Rightarrow> string \<Rightarrow> error + WorkflowRun list"
  listWorkflowRunArtifacts :: "string \<Rightarrow> string \<Rightarrow> string \<Rightarrow> nat \<Rightarrow> error + Artifact list"
  downloadArtifact :: "string \<Rightarrow> string \<Rightarrow> string \<Rightarrow> nat \<Rightarrow> error + string"

text \<open>
  What an operation changes: the files written and the directories created, the HTTP
  requests and the API requests sent (logs, oldest first, so that a statement can speak
  about the requests a call has issued), the keys of the process-wide client pool
  \<open>GitHubAsset.OCTOKIT\<close>, and the number of temporary directories handed out.
\<close>

record world =
  files :: "string \<rightharpoonup> string"
  dirs :: "string list"
  requests :: "(string \<times> OutgoingHttpHeaders) list"
  api_calls :: "api_call list"
  OCTOKIT :: "string list"
  temps :: nat

definition called :: "api_call \<Rightarrow> world \<Rightarrow> world" where
  "called c w = w\<lparr>api_calls := api_calls w @ [c]\<rparr>"

text \<open>The API requests logged between an earlier world and a later one.\<close>

definition calls_between :: "world \<Rightarrow> world \<Rightarrow> api_call list" where
  "calls_between w w' = drop (length (api_calls w)) (api_calls w')"

definition written :: "string \<Rightarrow> string \<Rightarrow> world \<Rightarrow> world" where
  "written path content w = w\<lparr>files := (files w)(path \<mapsto> content)\<rparr>"

definition new_URL :: "env \<Rightarrow> string \<Rightarrow> error + URL" where
  "new_URL E s = (case parse_URL E s of None \<Rightarrow> Inl (TypeError ''Invalid URL'') | Some u \<Rightarrow> Inr u)"

text \<open>
  The endpoint \<open>GET /repos/{owner}/{repo}/actions/workflows/{workflow_id}/runs\<close>: the
  runs whose status or conclusion is the one asked for, newest first, one page of them.
\<close>

definition listWorkflowRuns ::
  "env \<Rightarrow> string \<Rightarrow> string \<Rightarrow> string \<Rightarrow> string \<Rightarrow> nat \<Rightarrow> string \<Rightarrow> error + WorkflowRun list" where
  "listWorkflowRuns E client owner repo workflow_id per_page status =
     (case workflow_runs E client owner repo workflow_id of
        Inl e \<Rightarrow> Inl e
      | Inr runs \<Rightarrow>
          Inr (take per_page
                 (filter (\<lambda>r. run_status r = status \<or> run_conclusion r = Some status) runs)))"


section \<open>\<open>downloadFile\<close> (file-download.ts)\<close>

text \<open>
  The request headers: \<open>{ Accept: ..., 'User-Agent': ..., ...headers }\<close>.  A spread key
  that is already present replaces the value in place, a new key is appended.
\<close>

definition requestOptions :: "OutgoingHttpHeaders \<Rightarrow> OutgoingHttpHeaders" where
  "requestOptions hs =
     fold (\<lambda>(k, v). AList.update k v) hs
       [(''Accept'', ''application/octet-stream''), (''User-Agent'', ''vsce-helpers'')]"

definition status_error :: "string \<Rightarrow> IncomingMessage \<Rightarrow> error" where
  "status_error url res =
     Error (''Status Code: ''
            @ (case statusCode res of None \<Rightarrow> ''undefined'' | Some c \<Rightarrow> show_nat c)
            @ [newline] @ url @ '': ''
            @ (case statusMessage res of None \<Rightarrow> [] | Some m \<Rightarrow> m)
            @ [newline] @ JSON_stringify (headers res))"

definition sent :: "string \<Rightarrow> OutgoingHttpHeaders \<Rightarrow> world \<Rightarrow> world" where
  "sent url hs w = w\<lparr>requests := requests w @ [(url, requestOptions hs)]\<rparr>"

text \<open>
  A chain of redirects need not end, so the function is partial: \<open>None\<close> is the promise
  that never settles.  The recursive call passes no third argument, so the parameter
  takes its default \<open>{}\<close>.  A redirect response is destroyed, nothing of it is written.
\<close>

partial_function (option) downloadFile ::
  "env \<Rightarrow> string \<Rightarrow> string \<Rightarrow> OutgoingHttpHeaders \<Rightarrow> world \<Rightarrow> ((error + string) \<times> world) option"
where
  "downloadFile E url outputPath hs w =
     (case https_request E url (requestOptions hs) of
        Failed e \<Rightarrow> Some (Inl e, sent url hs w)
      | Responded res \<Rightarrow>
          if statusCode res \<noteq> None \<and> (the (statusCode res) < 200 \<or> the (statusCode res) \<ge> 300)
          then
            if (statusCode res = Some 301 \<or> statusCode res = Some 302) \<and> truthy (location (headers res))
            then downloadFile E (the (location (headers res))) outputPath [] (sent url hs w)
            else Some (Inl (status_error url res), sent url hs w)
          else
            if writable E outputPath
            then Some (Inr outputPath, written outputPath (body res) (sent url hs w))
            else Some (Inl (SystemError outputPath), sent url hs w))"

declare downloadFile.simps [code]


section \<open>The shared base \<open>AbstractAsset\<close>\<close>

text \<open>
  Modelled from the spec: \<open>AbstractAsset.version\<close> and \<open>AbstractAsset.cacheId\<close>
  (downloader.ts is not among the sources).  \<open>LocalFileAsset\<close> overrides neither, and
  for it section 4.2 says: no cache slot, version is undefined.
\<close>

definition AbstractAsset_version :: "string option" where
  "AbstractAsset_version = None"

definition AbstractAsset_cacheId :: "string option" where
  "AbstractAsset_cacheId = None"

text \<open>
  Modelled from the spec: \<open>AbstractAsset.mkDest\<close> (downloader.ts is not among the
  sources).  Section 4.2: \<open>copyTo(destination?)\<close> returns the path actually used and
  supports an asset-chosen default destination when none is supplied; the directory is
  created if absent.
\<close>

definition mkDest :: "env \<Rightarrow> string option \<Rightarrow> world \<Rightarrow> (error + string) \<times> world" where
  "mkDest E dest w =
     (let d = (case dest of None \<Rightarrow> default_destination E | Some d \<Rightarrow> d)
      in if mkdir E d then (Inr d, w\<lparr>dirs := dirs w @ [d]\<rparr>) else (Inl (SystemError d), w))"

text \<open>
  Modelled from the spec: \<open>AbstractAsset.mkTempDir\<close> (downloader.ts is not among the
  sources).  Section 4.1: creates a uniquely named directory under the system temp root.
\<close>

definition mkTempDir :: "env \<Rightarrow> world \<Rightarrow> (error + string) \<times> world" where
  "mkTempDir E w =
     (let d = temp_name E (temps w)
      in if mkdir E d then (Inr d, w\<lparr>dirs := dirs w @ [d], temps := Suc (temps w)\<rparr>)
         else (Inl (SystemError d), w))"

text \<open>
  Modelled from the spec: \<open>AbstractAsset.downloadFile\<close> (downloader.ts is not among the
  sources).  Section 4.2: \<open>copyTo\<close> downloads via the transfer primitive.
\<close>

definition AbstractAsset_downloadFile ::
  "env \<Rightarrow> URL \<Rightarrow> string \<Rightarrow> OutgoingHttpHeaders \<Rightarrow> world \<Rightarrow> ((error + string) \<times> world) option" where
  "AbstractAsset_downloadFile E u downloadFilePath hs w = downloadFile E (href u) downloadFilePath hs w"

text \<open>
  Modelled from the spec: \<open>AbstractAsset.assureFile\<close> (downloader.ts is not among the
  sources).  Section 4.3: the download is skipped if an identically named file already
  exists locally.
\<close>

definition assureFile :: "string \<Rightarrow> world \<Rightarrow> bool" where
  "assureFile p w = (files w p \<noteq> None)"

text \<open>
  Modelled from the spec: \<open>AbstractAsset.extractArchive\<close> (downloader.ts is not among the
  sources).  Section 4.1: extracts all entries into the destination directory and
  discards the outermost \<open>strip\<close> path segments of each entry; an entry that has no
  segment left is dropped; the destination is created if absent.
\<close>

definition strip_path :: "nat \<Rightarrow> string \<Rightarrow> string option" where
  "strip_path n p =
     (let segs = filter (\<lambda>s. s \<noteq> []) (split_on CHR ''/'' p)
      in if length segs \<le> n then None else Some (join ''/'' (drop n segs)))"

definition extractArchive ::
  "env \<Rightarrow> string \<Rightarrow> string option \<Rightarrow> nat \<Rightarrow> world \<Rightarrow> (error + string) \<times> world" where
  "extractArchive E archivePath dest strip w =
     (case mkDest E dest w of
        (Inl e, w1) \<Rightarrow> (Inl e, w1)
      | (Inr d, w1) \<Rightarrow>
          (case files w1 archivePath of
             None \<Rightarrow> (Inl (SystemError archivePath), w1)
           | Some content \<Rightarrow>
               (case archive_entries E content of
                  None \<Rightarrow> (Inl (Error archivePath), w1)
                | Some entries \<Rightarrow>
                    (Inr d,
                     fold (\<lambda>(p, c) w'. case strip_path strip p of
                                          None \<Rightarrow> w'
                                        | Some q \<Rightarrow> written (path_join [d, q]) c w')
                          entries w1))))"

text \<open>\<open>fs.copyFile\<close> and \<open>fs.writeFile\<close> of the runtime.\<close>

definition copyFile :: "env \<Rightarrow> string \<Rightarrow> string \<Rightarrow> world \<Rightarrow> (error + unit) \<times> world" where
  "copyFile E src dst w =
     (case files w src of
        None \<Rightarrow> (Inl (SystemError src), w)
      | Some c \<Rightarrow> if writable E dst then (Inr (), written dst c w) else (Inl (SystemError dst), w))"

definition writeFile :: "env \<Rightarrow> string \<Rightarrow> string \<Rightarrow> world \<Rightarrow> (error + unit) \<times> world" where
  "writeFile E p c w = (if writable E p then (Inr (), written p c w) else (Inl (SystemError p), w))"


section \<open>File assets (file-assets.ts)\<close>

record LocalFileAsset =
  filepath :: string
  targetName :: "string option"

record WebFileAsset =
  url :: URL
  filename :: "string option"
  version' :: "string option"
  headers' :: OutgoingHttpHeaders

definition LocalFileAsset_copyTo ::
  "env \<Rightarrow> LocalFileAsset \<Rightarrow> string option \<Rightarrow> world \<Rightarrow> (error + string) \<times> world" where
  "LocalFileAsset_copyTo E a dest w =
     (case mkDest E dest w of
        (Inl e, w1) \<Rightarrow> (Inl e, w1)
      | (Inr d, w1) \<Rightarrow>
          (case copyFile E (filepath a)
                  (path_join [d, case targetName a of None \<Rightarrow> basename (filepath a) | Some n \<Rightarrow> n]) w1 of
             (Inl e, w2) \<Rightarrow> (Inl e, w2)
           | (Inr u, w2) \<Rightarrow> (Inr d, w2)))"

definition WebFileAsset_version :: "WebFileAsset \<Rightarrow> string option" where
  "WebFileAsset_version a = version' a"

definition WebFileAsset_cacheId :: "WebFileAsset \<Rightarrow> string" where
  "WebFileAsset_cacheId a = path_join [host (url a), normalize (pathname (url a))]"

definition WebFileAsset_copyTo ::
  "env \<Rightarrow> WebFileAsset \<Rightarrow> string option \<Rightarrow> world \<Rightarrow> ((error + string) \<times> world) option" where
  "WebFileAsset_copyTo E a dest w =
     (case mkDest E dest w of
        (Inl e, w1) \<Rightarrow> Some (Inl e, w1)
      | (Inr d, w1) \<Rightarrow>
          AbstractAsset_downloadFile E (url a)
            (path_join [d, case filename a of None \<Rightarrow> basename (pathname (url a)) | Some n \<Rightarrow> n])
            (headers' a) w1)"


section \<open>GitHub assets (github-assets.ts)\<close>

subsection \<open>The base class \<open>GitHubAsset\<close>\<close>

text \<open>
  The fields of the base class; \<open>token\<close> is \<open>options?.token\<close>, \<open>refs\<close> the map of the
  refs resolved so far.  The subclasses extend the record.
\<close>

record GitHubAsset =
  owner :: string
  repo :: string
  token :: "string option"
  refs :: "string \<rightharpoonup> string"

text \<open>
  \<open>getOctokit\<close>: the client pooled under the key \<open>ghToken ?? ''\<close>, constructed if
  there is none yet.  The result is the key, which identifies the client.  Loading
  \<open>node-fetch\<close> and constructing a client are taken to succeed.
\<close>

definition getOctokit :: "'a GitHubAsset_scheme \<Rightarrow> world \<Rightarrow> string \<times> world" where
  "getOctokit a w =
     (let key = (case token a of None \<Rightarrow> [] | Some t \<Rightarrow> t)
      in (key, if key \<in> set (OCTOKIT w) then w else w\<lparr>OCTOKIT := OCTOKIT w @ [key]\<rparr>))"

definition GitHubAsset_downloadFile ::
  "env \<Rightarrow> 'a GitHubAsset_scheme \<Rightarrow> URL \<Rightarrow> string \<Rightarrow> world \<Rightarrow> ((error + string) \<times> world) option" where
  "GitHubAsset_downloadFile E a u downloadFilePath w =
     AbstractAsset_downloadFile E u downloadFilePath
       (if truthy (token a) then [(''authorization'', ''Bearer '' @ the (token a))] else []) w"

definition resolveRef ::
  "env \<Rightarrow> 'a GitHubAsset_scheme \<Rightarrow> string \<Rightarrow> world
     \<Rightarrow> (error + string) \<times> 'a GitHubAsset_scheme \<times> world" where
  "resolveRef E a r w =
     (case refs a r of
        Some sha \<Rightarrow> (Inr sha, a, w)
      | None \<Rightarrow>
          (let (octokit, w1) = getOctokit a w;
               w2 = called (GetRef (owner a) (repo a) r) w1
           in case getRef E octokit (owner a) (repo a) r of
                Inl e \<Rightarrow> (Inl e, a, w2)
              | Inr sha \<Rightarrow> (Inr sha, a\<lparr>refs := (refs a)(r \<mapsto> sha)\<rparr>, w2)))"

subsection \<open>\<open>GitHubReleaseAsset\<close>\<close>

text \<open>A tag or an artifact name is given as \<open>RegExp | string\<close>.\<close>

datatype pattern = Literal string | Regex RegExp

text \<open>
  \<open>releasePromise\<close> is \<open>None\<close> while the field is undefined; once assigned it holds the
  promise, that is, its outcome: a rejection, or the release found, if any.
\<close>

record GitHubReleaseAsset = GitHubAsset +
  tag :: pattern
  assetName :: string
  releasePromise :: "(error + GitHubRelease option) option"

text \<open>The constructor: nothing is resolved yet.\<close>

definition new_GitHubReleaseAsset ::
  "string \<Rightarrow> string \<Rightarrow> pattern \<Rightarrow> string \<Rightarrow> string option \<Rightarrow> GitHubReleaseAsset" where
  "new_GitHubReleaseAsset ow rp tg an tok =
     \<lparr>owner = ow, repo = rp, token = tok, refs = Map.empty,
      tag = tg, assetName = an, releasePromise = None\<rparr>"

definition tagRegex :: "GitHubReleaseAsset \<Rightarrow> error + RegExp" where
  "tagRegex a = (case tag a of Literal s \<Rightarrow> new_RegExp (''v?('' @ s @ '')'') | Regex r \<Rightarrow> Inr r)"

text \<open>
  \<open>response.data.find(r => r.tag_name.match(this.tagRegex))\<close>: the callback reads
  \<open>tagRegex\<close> for each release it is asked about, so an invalid pattern throws at the
  first release, and not at all on an empty listing.
\<close>

fun find_release :: "GitHubReleaseAsset \<Rightarrow> GitHubRelease list \<Rightarrow> error + GitHubRelease option" where
  "find_release a [] = Inr None"
| "find_release a (r # rs) =
     (case tagRegex a of
        Inl e \<Rightarrow> Inl e
      | Inr rx \<Rightarrow>
          if match (release_tag_name r) (matcher rx) \<noteq> None then Inr (Some r)
          else find_release a rs)"

definition release ::
  "env \<Rightarrow> GitHubReleaseAsset \<Rightarrow> world
     \<Rightarrow> (error + GitHubRelease option) \<times> GitHubReleaseAsset \<times> world" where
  "release E a w =
     (case releasePromise a of
        Some p \<Rightarrow> (p, a, w)
      | None \<Rightarrow>
          (let (octokit, w1) = getOctokit a w;
               w2 = called (ListReleases (owner a) (repo a)) w1;
               p = (case listReleases E octokit (owner a) (repo a) of
                      Inl e \<Rightarrow> Inl e
                    | Inr data \<Rightarrow> find_release a data)
           in (p, a\<lparr>releasePromise := Some p\<rparr>, w2)))"

definition GitHubReleaseAsset_cacheId ::
  "env \<Rightarrow> GitHubReleaseAsset \<Rightarrow> world \<Rightarrow> (error + string) \<times> GitHubReleaseAsset \<times> world" where
  "GitHubReleaseAsset_cacheId E a w =
     (let (p, a1, w1) = release E a w
      in (case p of
            Inl e \<Rightarrow> Inl e
          | Inr rel \<Rightarrow>
              Inr (owner a @ ''/'' @ repo a @ ''/''
                   @ (case rel of None \<Rightarrow> ''undefined'' | Some r \<Rightarrow> release_tag_name r)),
          a1, w1))"

definition GitHubReleaseAsset_version ::
  "env \<Rightarrow> GitHubReleaseAsset \<Rightarrow> world \<Rightarrow> (error + string option) \<times> GitHubReleaseAsset \<times> world" where
  "GitHubReleaseAsset_version E a w =
     (let (p, a1, w1) = release E a w
      in (case p of
            Inl e \<Rightarrow> Inl e
          | Inr None \<Rightarrow> Inr None
          | Inr (Some r) \<Rightarrow>
              (case tagRegex a of
                 Inl e \<Rightarrow> Inl e
               | Inr rx \<Rightarrow>
                   Inr (case match (release_tag_name r) (matcher rx) of
                          None \<Rightarrow> None
                        | Some c \<Rightarrow> c 1)),
          a1, w1))"

definition findReleaseAsset ::
  "env \<Rightarrow> GitHubReleaseAsset \<Rightarrow> world \<Rightarrow> (error + ReleaseAsset) \<times> GitHubReleaseAsset \<times> world" where
  "findReleaseAsset E a w =
     (let (octokit, w1) = getOctokit a w;
          (p, a1, w2) = release E a w1
      in case p of
           Inl e \<Rightarrow> (Inl e, a1, w2)
         | Inr None \<Rightarrow>
             (case tagRegex a of
                Inl e \<Rightarrow> (Inl e, a1, w2)
              | Inr rx \<Rightarrow>
                  (Inl (Error (''Could not find release for tag pattern '' @ source rx)), a1, w2))
         | Inr (Some r) \<Rightarrow>
             (let w3 = called (ListReleaseAssets (owner a) (repo a) (release_id r)) w2
              in case listReleaseAssets E octokit (owner a) (repo a) (release_id r) of
                   Inl e \<Rightarrow> (Inl e, a1, w3)
                 | Inr assets \<Rightarrow>
                     (case find (\<lambda>x. asset_name x = assetName a) assets of
                        None \<Rightarrow>
                          (Inl (Error (''Could not find release asset '' @ assetName a
                                       @ '' for release '' @ [CHR 0x27] @ release_tag_name r
                                       @ [CHR 0x27])), a1, w3)
                      | Some x \<Rightarrow> (Inr x, a1, w3))))"

definition GitHubReleaseAsset_copyTo ::
  "env \<Rightarrow> GitHubReleaseAsset \<Rightarrow> string option \<Rightarrow> world
     \<Rightarrow> ((error + string) \<times> GitHubReleaseAsset \<times> world) option" where
  "GitHubReleaseAsset_copyTo E a dest w =
     (case findReleaseAsset E a w of
        (Inl e, a1, w1) \<Rightarrow> Some (Inl e, a1, w1)
      | (Inr x, a1, w1) \<Rightarrow>
          (case mkDest E dest w1 of
             (Inl e, w2) \<Rightarrow> Some (Inl e, a1, w2)
           | (Inr d, w2) \<Rightarrow>
               (case new_URL E (asset_url x) of
                  Inl e \<Rightarrow> Some (Inl e, a1, w2)
                | Inr u \<Rightarrow>
                    map_option (\<lambda>(res, w3). (res, a1, w3))
                      (GitHubAsset_downloadFile E a1 u (path_join [d, assetName a]) w2))))"

subsection \<open>\<open>GitHubRepoAsset\<close>\<close>

record GitHubRepoAsset = GitHubAsset +
  ref :: string
  path :: "string list option"

text \<open>The constructor: \<open>this.ref = options?.ref ?? 'main'\<close>.\<close>

definition new_GitHubRepoAsset ::
  "string \<Rightarrow> string \<Rightarrow> string option \<Rightarrow> string option \<Rightarrow> string list option \<Rightarrow> GitHubRepoAsset" where
  "new_GitHubRepoAsset ow rp tok rf pth =
     \<lparr>owner = ow, repo = rp, token = tok, refs = Map.empty,
      ref = (case rf of None \<Rightarrow> ''main'' | Some r \<Rightarrow> r), path = pth\<rparr>"

definition GitHubRepoAsset_version ::
  "env \<Rightarrow> GitHubRepoAsset \<Rightarrow> world \<Rightarrow> (error + string) \<times> GitHubRepoAsset \<times> world" where
  "GitHubRepoAsset_version E a w =
     (let (p, a1, w1) = resolveRef E a (ref a) w
      in (case p of Inl e \<Rightarrow> Inl e | Inr sha \<Rightarrow> Inr (ref a @ ''@'' @ sha), a1, w1))"

definition GitHubRepoAsset_cacheId ::
  "env \<Rightarrow> GitHubRepoAsset \<Rightarrow> world \<Rightarrow> (error + string) \<times> GitHubRepoAsset \<times> world" where
  "GitHubRepoAsset_cacheId E a w =
     (let (p, a1, w1) = resolveRef E a (ref a) w
      in (case p of Inl e \<Rightarrow> Inl e | Inr sha \<Rightarrow> Inr (owner a @ ''/'' @ repo a @ ''/'' @ sha),
          a1, w1))"

subsection \<open>\<open>GitHubWorkflowAsset\<close>\<close>

text \<open>
  \<open>lastWorkflowRunPromise\<close> holds the outcome of the promise once it is assigned; the
  value is \<open>workflow_runs[0]\<close>, which is undefined (\<open>None\<close>) on an empty page.
\<close>

record GitHubWorkflowAsset = GitHubAsset +
  workflow :: string
  artifactName :: pattern
  lastWorkflowRunPromise :: "(error + WorkflowRun option) option"

text \<open>The constructor: no run is resolved yet.\<close>

definition new_GitHubWorkflowAsset ::
  "string \<Rightarrow> string \<Rightarrow> string \<Rightarrow> pattern \<Rightarrow> string option \<Rightarrow> GitHubWorkflowAsset" where
  "new_GitHubWorkflowAsset ow rp wfile an tok =
     \<lparr>owner = ow, repo = rp, token = tok, refs = Map.empty,
      workflow = wfile, artifactName = an, lastWorkflowRunPromise = None\<rparr>"

text \<open>The engine's error for reading a property of \<open>undefined\<close>.\<close>

definition undefined_read :: "string \<Rightarrow> error" where
  "undefined_read prop =
     TypeError (''Cannot read properties of undefined (reading '' @ [CHR 0x27] @ prop
                @ [CHR 0x27] @ '')'')"

definition lastWorkflowRun ::
  "env \<Rightarrow> GitHubWorkflowAsset \<Rightarrow> world
     \<Rightarrow> (error + WorkflowRun option) \<times> GitHubWorkflowAsset \<times> world" where
  "lastWorkflowRun E a w =
     (case lastWorkflowRunPromise a of
        Some p \<Rightarrow> (p, a, w)
      | None \<Rightarrow>
          (let (octokit, w1) = getOctokit a w;
               w2 = called (ListWorkflowRuns (owner a) (repo a) (workflow a) 1 ''success'') w1;
               p = (case listWorkflowRuns E octokit (owner a) (repo a) (workflow a) 1 ''success'' of
                      Inl e \<Rightarrow> Inl e
                    | Inr runs \<Rightarrow> Inr (case runs of [] \<Rightarrow> None | r # rs \<Rightarrow> Some r))
           in (p, a\<lparr>lastWorkflowRunPromise := Some p\<rparr>, w2)))"

definition GitHubWorkflowAsset_version ::
  "env \<Rightarrow> GitHubWorkflowAsset \<Rightarrow> world \<Rightarrow> (error + string) \<times> GitHubWorkflowAsset \<times> world" where
  "GitHubWorkflowAsset_version E a w =
     (let (p, a1, w1) = lastWorkflowRun E a w
      in (case p of
            Inl e \<Rightarrow> Inl e
          | Inr None \<Rightarrow> Inl (undefined_read ''id'')
          | Inr (Some r) \<Rightarrow> Inr (workflow a @ ''@'' @ show_nat (run_id r)),
          a1, w1))"

definition GitHubWorkflowAsset_cacheId ::
  "env \<Rightarrow> GitHubWorkflowAsset \<Rightarrow> world \<Rightarrow> (error + string) \<times> GitHubWorkflowAsset \<times> world" where
  "GitHubWorkflowAsset_cacheId E a w =
     (let (p, a1, w1) = lastWorkflowRun E a w
      in (case p of
            Inl e \<Rightarrow> Inl e
          | Inr None \<Rightarrow> Inl (undefined_read ''id'')
          | Inr (Some r) \<Rightarrow>
              Inr (owner a @ ''/'' @ repo a @ ''/'' @ workflow a @ ''/'' @ show_nat (run_id r)),
          a1, w1))"

text \<open>
  \<open>artifact.name.match(this.artifactName)\<close>: a string argument is compiled with
  \<open>new RegExp\<close> at each call.
\<close>

definition pattern_regex :: "pattern \<Rightarrow> error + RegExp" where
  "pattern_regex p = (case p of Literal s \<Rightarrow> new_RegExp s | Regex r \<Rightarrow> Inr r)"

fun find_artifact :: "pattern \<Rightarrow> Artifact list \<Rightarrow> error + Artifact option" where
  "find_artifact p [] = Inr None"
| "find_artifact p (x # xs) =
     (case pattern_regex p of
        Inl e \<Rightarrow> Inl e
      | Inr rx \<Rightarrow>
          if match (artifact_name x) (matcher rx) \<noteq> None then Inr (Some x)
          else find_artifact p xs)"

text \<open>A pattern inside a template literal: a string as it is, a \<open>RegExp\<close> between slashes.\<close>

definition show_pattern :: "pattern \<Rightarrow> string" where
  "show_pattern p = (case p of Literal s \<Rightarrow> s | Regex r \<Rightarrow> ''/'' @ source r @ ''/'')"

definition GitHubWorkflowAsset_downloadArtifact ::
  "env \<Rightarrow> GitHubWorkflowAsset \<Rightarrow> nat \<Rightarrow> string \<Rightarrow> world \<Rightarrow> (error + string) \<times> world" where
  "GitHubWorkflowAsset_downloadArtifact E a n downloadFilePath w =
     (if assureFile downloadFilePath w then (Inr downloadFilePath, w)
      else
        let (octokit, w1) = getOctokit a w;
            w2 = called (DownloadArtifact (owner a) (repo a) n) w1
        in case downloadArtifact E octokit (owner a) (repo a) n of
             Inl e \<Rightarrow> (Inl e, w2)
           | Inr data \<Rightarrow>
               if \<not> mkdir E (dirname downloadFilePath)
               then (Inl (SystemError (dirname downloadFilePath)), w2)
               else
                 (case writeFile E downloadFilePath data
                         (w2\<lparr>dirs := dirs w2 @ [dirname downloadFilePath]\<rparr>) of
                    (Inl e, w3) \<Rightarrow> (Inl e, w3)
                  | (Inr u, w3) \<Rightarrow> (Inr downloadFilePath, w3)))"

definition GitHubWorkflowAsset_copyTo ::
  "env \<Rightarrow> GitHubWorkflowAsset \<Rightarrow> string option \<Rightarrow> world
     \<Rightarrow> (error + string) \<times> GitHubWorkflowAsset \<times> world" where
  "GitHubWorkflowAsset_copyTo E a dest w =
     (let (octokit, w1) = getOctokit a w
      in case mkTempDir E w1 of
           (Inl e, w2) \<Rightarrow> (Inl e, a, w2)
         | (Inr temp, w2) \<Rightarrow>
             (case lastWorkflowRun E a w2 of
                (Inl e, a1, w3) \<Rightarrow> (Inl e, a1, w3)
              | (Inr None, a1, w3) \<Rightarrow> (Inl (undefined_read ''id''), a1, w3)
              | (Inr (Some run), a1, w3) \<Rightarrow>
                  (let w4 = called (ListWorkflowRunArtifacts (owner a) (repo a) (run_id run)) w3
                   in case listWorkflowRunArtifacts E octokit (owner a) (repo a) (run_id run) of
                        Inl e \<Rightarrow> (Inl e, a1, w4)
                      | Inr artifacts \<Rightarrow>
                          (case find_artifact (artifactName a) artifacts of
                             Inl e \<Rightarrow> (Inl e, a1, w4)
                           | Inr None \<Rightarrow>
                               (Inl (Error (''No artifact found matching ''
                                            @ show_pattern (artifactName a)
                                            @ '' in workflow run '' @ show_nat (run_id run))),
                                a1, w4)
                           | Inr (Some artifact) \<Rightarrow>
                               (case GitHubWorkflowAsset_downloadArtifact E a1 (artifact_id artifact)
                                       (path_join [temp, artifact_name artifact @ ''.zip'']) w4 of
                                  (Inl e, w5) \<Rightarrow> (Inl e, a1, w5)
                                | (Inr p, w5) \<Rightarrow>
                                    (case extractArchive E p dest 0 w5 of
                                       (r, w6) \<Rightarrow> (r, a1, w6)))))))"


section \<open>The \<open>Asset\<close> interface\<close>

text \<open>
  An \<open>Asset\<close> is an instance of one of the classes; a getter is dispatched on the
  class.  \<open>ArchiveFileAsset\<close> holds its subject and the strip depth.  It overrides
  \<open>version\<close>, which reads the subject's; it declares no \<open>cacheId\<close>, so that getter is the
  inherited one, as it is for \<open>LocalFileAsset\<close>.  A getter returns the instance too,
  since reading it may fill a memo field.
\<close>

datatype Asset =
    Local LocalFileAsset
  | Web WebFileAsset
  | Archive Asset nat
  | Release GitHubReleaseAsset
  | Repo GitHubRepoAsset
  | Workflow GitHubWorkflowAsset

fun version :: "env \<Rightarrow> Asset \<Rightarrow> world \<Rightarrow> (error + string option) \<times> Asset \<times> world" where
  "version E (Local a) w = (Inr AbstractAsset_version, Local a, w)"
| "version E (Web a) w = (Inr (WebFileAsset_version a), Web a, w)"
| "version E (Archive subject strip) w =
     (case version E subject w of (r, subject1, w1) \<Rightarrow> (r, Archive subject1 strip, w1))"
| "version E (Release a) w =
     (case GitHubReleaseAsset_version E a w of (r, a1, w1) \<Rightarrow> (r, Release a1, w1))"
| "version E (Repo a) w =
     (case GitHubRepoAsset_version E a w of (r, a1, w1) \<Rightarrow> (map_sum id Some r, Repo a1, w1))"
| "version E (Workflow a) w =
     (case GitHubWorkflowAsset_version E a w of (r, a1, w1) \<Rightarrow> (map_sum id Some r, Workflow a1, w1))"

fun cacheId :: "env \<Rightarrow> Asset \<Rightarrow> world \<Rightarrow> (error + string option) \<times> Asset \<times> world" where
  "cacheId E (Local a) w = (Inr AbstractAsset_cacheId, Local a, w)"
| "cacheId E (Web a) w = (Inr (Some (WebFileAsset_cacheId a)), Web a, w)"
| "cacheId E (Archive subject strip) w = (Inr AbstractAsset_cacheId, Archive subject strip, w)"
| "cacheId E (Release a) w =
     (case GitHubReleaseAsset_cacheId E a w of (r, a1, w1) \<Rightarrow> (map_sum id Some r, Release a1, w1))"
| "cacheId E (Repo a) w =
     (case GitHubRepoAsset_cacheId E a w of (r, a1, w1) \<Rightarrow> (map_sum id Some r, Repo a1, w1))"
| "cacheId E (Workflow a) w =
     (case GitHubWorkflowAsset_cacheId E a w of (r, a1, w1) \<Rightarrow> (map_sum id Some r, Workflow a1, w1))"


section \<open>Example environments\<close>

text \<open>
  Concrete surroundings on which the statements below are evaluated.  In \<open>offline\<close>
  every request fails; the others override single fields of it.
\<close>

definition offline :: env where
  "offline =
     \<lparr>https_request = (\<lambda>u hs. Failed (SystemError ''ENOTFOUND'')),
      writable = (\<lambda>p. True),
      mkdir = (\<lambda>p. True),
      temp_name = (\<lambda>n. ''/tmp/vsce-'' @ show_nat n),
      default_destination = ''/tmp/default'',
      parse_URL = (\<lambda>s. None),
      archive_entries = (\<lambda>c. None),
      listReleases = (\<lambda>c ow rp. Inl (RequestError ''Not Found'')),
      listReleaseAssets = (\<lambda>c ow rp n. Inl (RequestError ''Not Found'')),
      getRef = (\<lambda>c ow rp r. Inl (RequestError ''Not Found'')),
      workflow_runs = (\<lambda>c ow rp wf. Inl (RequestError ''Not Found'')),
      listWorkflowRunArtifacts = (\<lambda>c ow rp n. Inl (RequestError ''Not Found'')),
      downloadArtifact = (\<lambda>c ow rp n. Inl (RequestError ''Not Found''))\<rparr>"

definition blank :: world where
  "blank = \<lparr>files = Map.empty, dirs = [], requests = [], api_calls = [], OCTOKIT = [], temps = 0\<rparr>"

text \<open>
  An API host that redirects an asset to a storage host.  The storage host serves the
  file to a request without credentials and refuses one that carries an
  \<open>authorization\<close> header.
\<close>

definition found :: IncomingMessage where
  "found = \<lparr>statusCode = Some 302, statusMessage = Some ''Found'',
            headers = [(''location'', Single ''https://cdn.example/blob'')], body = ''moved''\<rparr>"

definition refused :: IncomingMessage where
  "refused = \<lparr>statusCode = Some 400, statusMessage = Some ''Bad Request'',
              headers = [(''content-length'', Single ''0''), (''set-cookie'', Multi [''a=1'', ''b=2''])],
              body = []\<rparr>"

definition served :: IncomingMessage where
  "served = \<lparr>statusCode = Some 200, statusMessage = Some ''OK'', headers = [], body = ''payload''\<rparr>"

definition redirecting :: env where
  "redirecting = offline\<lparr>https_request := (\<lambda>u hs.
       if u = ''https://api.example/asset'' then Responded found
       else if u = ''https://cdn.example/blob'' then
         (if map_of hs ''authorization'' = None then Responded served else Responded refused)
       else Failed (SystemError ''ENOTFOUND''))\<rparr>"

definition bearer :: OutgoingHttpHeaders where
  "bearer = [(''authorization'', ''Bearer t'')]"


text \<open>A host that serves one file, and a local file to copy.\<close>

definition tool_url :: URL where
  "tool_url = \<lparr>href = ''https://host.example/tools/tool.zip'', host = ''host.example'',
               pathname = ''/tools/tool.zip''\<rparr>"

definition serving :: env where
  "serving = offline\<lparr>https_request := (\<lambda>u hs.
       if u = ''https://host.example/tools/tool.zip'' then Responded served
       else Failed (SystemError ''ENOTFOUND''))\<rparr>"

definition web_tool :: WebFileAsset where
  "web_tool = \<lparr>url = tool_url, filename = None, version' = Some ''1.2.3'', headers' = []\<rparr>"

definition local_tool :: LocalFileAsset where
  "local_tool = \<lparr>filepath = ''/src/tool.bin'', targetName = None\<rparr>"

definition stocked :: world where
  "stocked = blank\<lparr>files := [''/src/tool.bin'' \<mapsto> ''bits'']\<rparr>"


text \<open>
  A repository with three releases, newest first; the release tagged \<open>v1.5.0\<close> has
  one asset.
\<close>

definition three_releases :: "GitHubRelease list" where
  "three_releases =
     [\<lparr>release_id = 30, release_tag_name = ''v2.0.0''\<rparr>,
      \<lparr>release_id = 20, release_tag_name = ''v1.5.0''\<rparr>,
      \<lparr>release_id = 10, release_tag_name = ''v1.0.0''\<rparr>]"

definition releasing :: env where
  "releasing = offline\<lparr>
      listReleases := (\<lambda>c ow rp. if ow = ''my-org'' \<and> rp = ''my-tool'' then Inr three_releases
                                   else Inl (RequestError ''Not Found'')),
      listReleaseAssets := (\<lambda>c ow rp n.
         if n = 20 then Inr [\<lparr>asset_name = ''my-tool-linux-x64'', asset_url = ''https://api.example/asset''\<rparr>]
         else Inr [])\<rparr>"

definition my_tool :: "string \<Rightarrow> string \<Rightarrow> GitHubReleaseAsset" where
  "my_tool tg an = new_GitHubReleaseAsset ''my-org'' ''my-tool'' (Literal tg) an None"


text \<open>
  A workflow whose two most recent runs are in progress and failed, before two
  successful ones; and a workflow that has no successful run.
\<close>

definition run_failed :: "nat \<Rightarrow> WorkflowRun" where
  "run_failed n = \<lparr>run_id = 9000 + n, run_number = n, run_status = ''completed'',
                   run_conclusion = Some ''failure''\<rparr>"

definition run_pending :: "nat \<Rightarrow> WorkflowRun" where
  "run_pending n = \<lparr>run_id = 9000 + n, run_number = n, run_status = ''in_progress'',
                    run_conclusion = None\<rparr>"

definition run_passed :: "nat \<Rightarrow> WorkflowRun" where
  "run_passed n = \<lparr>run_id = 9000 + n, run_number = n, run_status = ''completed'',
                   run_conclusion = Some ''success''\<rparr>"

definition building :: env where
  "building = offline\<lparr>
      workflow_runs := (\<lambda>c ow rp wf. Inr [run_pending 14, run_failed 13, run_passed 12, run_passed 11]),
      listWorkflowRunArtifacts := (\<lambda>c ow rp n. Inr [\<lparr>artifact_id = 7, artifact_name = ''tool-linux''\<rparr>]),
      downloadArtifact := (\<lambda>c ow rp n. Inr ''zipped''),
      archive_entries := (\<lambda>c. if c = ''zipped'' then Some [(''bin/tool'', ''bits'')] else None)\<rparr>"

definition broken_build :: env where
  "broken_build = offline\<lparr>
      workflow_runs := (\<lambda>c ow rp wf. Inr [run_pending 14, run_failed 13])\<rparr>"

definition nightly :: GitHubWorkflowAsset where
  "nightly = new_GitHubWorkflowAsset ''my-org'' ''my-tool'' ''build.yml'' (Literal ''tool-linux'') None"


text \<open>A repository whose branch \<open>main\<close> resolves, and a snapshot asset of it.\<close>

definition resolving :: env where
  "resolving = offline\<lparr>getRef := (\<lambda>c ow rp r. if r = ''main'' then Inr ''4f2a9c'' else Inl (RequestError ''Not Found''))\<rparr>"

definition snapshot :: GitHubRepoAsset where
  "snapshot = new_GitHubRepoAsset ''my-org'' ''my-tool'' None None None"


section \<open>Properties of \<open>downloadFile\<close>\<close>

lemma files_sent: "files (sent u hs w) = files w"
  by (simp add: sent_def)

text \<open>
  A download that resolves returns the output path, and the only change to the files
  is that the output path holds the body of the response to the last request sent,
  which was not an error response.
\<close>

lemma downloadFile_resolved:
  "downloadFile E u out hs w = Some (Inr p, w') \<Longrightarrow>
     p = out \<and> writable E out \<and>
     (\<exists>u' rh res. https_request E u' rh = Responded res
        \<and> \<not> (statusCode res \<noteq> None \<and> (the (statusCode res) < 200 \<or> the (statusCode res) \<ge> 300))
        \<and> requests w' \<noteq> [] \<and> last (requests w') = (u', rh)
        \<and> files w' = (files w)(out \<mapsto> body res))"
proof (induction E u out hs w "(Inr p :: error + string, w')"
        rule: downloadFile.raw_induct[rotated 1, consumes 1])
  case (1 downloadFile E u out hs w)
  show ?case
  proof (cases "https_request E u (requestOptions hs)")
    case (Failed e)
    with 1(2) show ?thesis by simp
  next
    case (Responded res)
    show ?thesis
    proof (cases "statusCode res \<noteq> None \<and> (the (statusCode res) < 200 \<or> the (statusCode res) \<ge> 300)")
      case True
      show ?thesis
      proof (cases "(statusCode res = Some 301 \<or> statusCode res = Some 302)
                     \<and> truthy (location (headers res))")
        case t: True
        with True Responded 1(2)
        have "downloadFile E (the (location (headers res))) out [] (sent u hs w) = Some (Inr p, w')"
          by simp
        from 1(1)[OF this] show ?thesis by (simp add: files_sent)
      next
        case False
        with True Responded 1(2) show ?thesis by simp
      qed
    next
      case False
      with Responded 1(2) have "p = out" "writable E out"
        "w' = written out (body res) (sent u hs w)"
        by (auto split: if_splits)
      with False Responded show ?thesis
        by (intro conjI exI[of _ u] exI[of _ "requestOptions hs"] exI[of _ res])
           (simp_all add: written_def sent_def)
    qed
  qed
qed

text \<open>
  C8.  For a response whose status is outside 200..299 and which is not a redirect that
  is followed (status 301 or 302 with a non-empty \<open>location\<close> header), \<open>downloadFile\<close>
  rejects with an \<open>Error\<close> whose message consists of the status code in decimal, the
  URL, the status message (empty if there is none) and the response headers as JSON;
  nothing but the request log changes.
\<close>

theorem downloadFile_status_error:
  assumes "https_request E u (requestOptions hs) = Responded res"
    and "statusCode res = Some c"
    and "c < 200 \<or> 300 \<le> c"
    and "\<not> ((c = 301 \<or> c = 302) \<and> truthy (location (headers res)))"
  shows "downloadFile E u out hs w =
           Some (Inl (Error (''Status Code: '' @ show_nat c @ [newline] @ u @ '': ''
                             @ (case statusMessage res of None \<Rightarrow> [] | Some m \<Rightarrow> m)
                             @ [newline] @ JSON_stringify (headers res))),
                 sent u hs w)"
  using assms by (subst downloadFile.simps) (auto simp: status_error_def)

theorem downloadFile_status_error_witness:
  "https_request redirecting ''https://cdn.example/blob'' (requestOptions bearer) = Responded refused
   \<and> statusCode refused = Some 400
   \<and> downloadFile redirecting ''https://cdn.example/blob'' ''/d/f'' bearer blank =
       Some (Inl (Error (''Status Code: 400'' @ [newline] @ ''https://cdn.example/blob: Bad Request''
                         @ [newline] @ JSON_stringify (headers refused))),
             sent ''https://cdn.example/blob'' bearer blank)"
  using downloadFile_status_error [of redirecting "''https://cdn.example/blob''" bearer refused 400
          "''/d/f''" blank]
  by (simp add: redirecting_def requestOptions_def bearer_def refused_def truthy_def location_def
        show_nat.simps)

text \<open>
  C1 (as amended).  On a 301 or 302 response with a non-empty \<open>location\<close> header,
  \<open>downloadFile\<close> is the download of the new URL to the same output path with no
  caller-supplied headers (the request carries the default \<open>Accept\<close> and \<open>User-Agent\<close>
  only).  If it resolves, it resolves to the output path, and the only file changed is
  the output path, which holds the body of the response to the last request sent.
\<close>

theorem downloadFile_follows_redirect:
  assumes "https_request E u (requestOptions hs) = Responded res"
    and "statusCode res = Some 301 \<or> statusCode res = Some 302"
    and "location (headers res) = Some loc" and "loc \<noteq> []"
  shows "downloadFile E u out hs w = downloadFile E loc out [] (sent u hs w)
       \<and> (\<forall>p w'. downloadFile E u out hs w = Some (Inr p, w') \<longrightarrow>
            p = out \<and>
            (\<exists>u' rh res'. last (requests w') = (u', rh) \<and> https_request E u' rh = Responded res'
                \<and> files w' = (files w)(out \<mapsto> body res')))"
proof -
  have eq: "downloadFile E u out hs w = downloadFile E loc out [] (sent u hs w)"
    using assms by (subst downloadFile.simps) (auto simp: truthy_def)
  show ?thesis
  proof (intro conjI allI impI)
    show "downloadFile E u out hs w = downloadFile E loc out [] (sent u hs w)" by (rule eq)
  next
    fix p w' assume "downloadFile E u out hs w = Some (Inr p, w')"
    from downloadFile_resolved[OF this] show "p = out" by simp
  next
    fix p w' assume "downloadFile E u out hs w = Some (Inr p, w')"
    from downloadFile_resolved[OF this]
    show "\<exists>u' rh res'. last (requests w') = (u', rh) \<and> https_request E u' rh = Responded res'
                \<and> files w' = (files w)(out \<mapsto> body res')"
      by blast
  qed
qed

theorem downloadFile_follows_redirect_witness:
  "https_request redirecting ''https://api.example/asset'' (requestOptions bearer) = Responded found
   \<and> statusCode found = Some 302
   \<and> location (headers found) = Some ''https://cdn.example/blob''
   \<and> downloadFile redirecting ''https://api.example/asset'' ''/d/f'' bearer blank
       = downloadFile redirecting ''https://cdn.example/blob'' ''/d/f'' []
           (sent ''https://api.example/asset'' bearer blank)
   \<and> downloadFile redirecting ''https://api.example/asset'' ''/d/f'' bearer blank
       = Some (Inr ''/d/f'',
               written ''/d/f'' ''payload''
                 (sent ''https://cdn.example/blob'' [] (sent ''https://api.example/asset'' bearer blank)))"
proof -
  have h1: "https_request redirecting ''https://api.example/asset'' (requestOptions bearer) = Responded found"
    by (simp add: redirecting_def)
  have h2: "statusCode found = Some 301 \<or> statusCode found = Some 302"
    by (simp add: found_def)
  have h3: "location (headers found) = Some ''https://cdn.example/blob''"
    by (simp add: found_def location_def)
  have h4: "''https://cdn.example/blob'' \<noteq> []" by simp
  have fin: "downloadFile redirecting ''https://cdn.example/blob'' ''/d/f'' []
           (sent ''https://api.example/asset'' bearer blank) = Some (Inr ''/d/f'',
               written ''/d/f'' ''payload''
                 (sent ''https://cdn.example/blob'' [] (sent ''https://api.example/asset'' bearer blank)))"
    by (simp add: downloadFile.simps redirecting_def offline_def requestOptions_def served_def)
  from downloadFile_follows_redirect[OF h1 h2 h3 h4, of "''/d/f''" blank] h1 h3 fin
  show ?thesis by (simp add: found_def)
qed

text \<open>
  The redirect is not followed with the caller's headers: in the example the request to
  the storage host carries the default headers only, and the download differs from the
  one that would send the \<open>authorization\<close> header again.
\<close>

theorem downloadFile_redirect_headers_counterexample:
  "downloadFile redirecting ''https://api.example/asset'' ''/d/f'' bearer blank
     \<noteq> downloadFile redirecting ''https://cdn.example/blob'' ''/d/f'' bearer
          (sent ''https://api.example/asset'' bearer blank)
   \<and> map_option (map snd \<circ> requests \<circ> snd)
        (downloadFile redirecting ''https://api.example/asset'' ''/d/f'' bearer blank)
     = Some [requestOptions bearer, requestOptions []]
   \<and> requestOptions bearer \<noteq> requestOptions []"
  by (simp add: downloadFile.simps redirecting_def offline_def requestOptions_def truthy_def
        location_def sent_def written_def blank_def status_error_def bearer_def found_def
        served_def refused_def)

text \<open>A response that is not an error response is written to the output path.\<close>

lemma downloadFile_accepted:
  assumes "https_request E u (requestOptions hs) = Responded res"
    and "statusCode res = None \<or> (200 \<le> the (statusCode res) \<and> the (statusCode res) < 300)"
    and "writable E out"
  shows "downloadFile E u out hs w = Some (Inr out, written out (body res) (sent u hs w))"
  using assms by (subst downloadFile.simps) auto


section \<open>Properties of the file assets\<close>

text \<open>
  C10.  Given a destination directory \<open>d\<close>, \<open>LocalFileAsset.copyTo\<close> resolves to \<open>d\<close>
  itself (it does resolve if the directory can be made, the source file exists and the
  target can be written), whereas \<open>WebFileAsset.copyTo\<close> resolves to the path of the
  downloaded file, \<open>d\<close> joined with the file name, which defaults to the basename of the
  URL's pathname (it does resolve if the directory can be made, the response is not an
  error response and the file can be written).
\<close>

theorem copyTo_returned_path:
  "(mkdir E d \<and> files w (filepath a) \<noteq> None
      \<and> writable E (path_join [d, case targetName a of None \<Rightarrow> basename (filepath a) | Some n \<Rightarrow> n])
      \<longrightarrow> fst (LocalFileAsset_copyTo E a (Some d) w) = Inr d)
   \<and> (\<forall>p w'. LocalFileAsset_copyTo E a (Some d) w = (Inr p, w') \<longrightarrow> p = d)
   \<and> (mkdir E d \<and> https_request E (href (url b)) (requestOptions (headers' b)) = Responded res
      \<and> (statusCode res = None \<or> (200 \<le> the (statusCode res) \<and> the (statusCode res) < 300))
      \<and> writable E (path_join [d, case filename b of None \<Rightarrow> basename (pathname (url b)) | Some n \<Rightarrow> n])
      \<longrightarrow> map_option fst (WebFileAsset_copyTo E b (Some d) w)
            = Some (Inr (path_join [d, case filename b of None \<Rightarrow> basename (pathname (url b)) | Some n \<Rightarrow> n])))
   \<and> (\<forall>p w'. WebFileAsset_copyTo E b (Some d) w = Some (Inr p, w') \<longrightarrow>
         p = path_join [d, case filename b of None \<Rightarrow> basename (pathname (url b)) | Some n \<Rightarrow> n])"
proof (intro conjI allI impI)
  assume "mkdir E d \<and> files w (filepath a) \<noteq> None
      \<and> writable E (path_join [d, case targetName a of None \<Rightarrow> basename (filepath a) | Some n \<Rightarrow> n])"
  then show "fst (LocalFileAsset_copyTo E a (Some d) w) = Inr d"
    by (auto simp: LocalFileAsset_copyTo_def mkDest_def copyFile_def written_def)
next
  fix p w' assume "LocalFileAsset_copyTo E a (Some d) w = (Inr p, w')"
  then show "p = d"
    by (auto simp: LocalFileAsset_copyTo_def mkDest_def Let_def split: if_splits prod.splits sum.splits)
next
  assume "mkdir E d \<and> https_request E (href (url b)) (requestOptions (headers' b)) = Responded res
      \<and> (statusCode res = None \<or> (200 \<le> the (statusCode res) \<and> the (statusCode res) < 300))
      \<and> writable E (path_join [d, case filename b of None \<Rightarrow> basename (pathname (url b)) | Some n \<Rightarrow> n])"
  then show "map_option fst (WebFileAsset_copyTo E b (Some d) w)
            = Some (Inr (path_join [d, case filename b of None \<Rightarrow> basename (pathname (url b)) | Some n \<Rightarrow> n]))"
    by (simp add: WebFileAsset_copyTo_def mkDest_def AbstractAsset_downloadFile_def downloadFile_accepted)
next
  fix p w' assume "WebFileAsset_copyTo E b (Some d) w = Some (Inr p, w')"
  then show "p = path_join [d, case filename b of None \<Rightarrow> basename (pathname (url b)) | Some n \<Rightarrow> n]"
    by (auto simp: WebFileAsset_copyTo_def mkDest_def AbstractAsset_downloadFile_def Let_def
             split: if_splits dest: downloadFile_resolved)
qed

theorem copyTo_returned_path_witness:
  "fst (LocalFileAsset_copyTo serving local_tool (Some ''/dest'') stocked) = Inr ''/dest''
   \<and> map_option fst (WebFileAsset_copyTo serving web_tool (Some ''/dest'') stocked) = Some (Inr ''/dest/tool.zip'')"
  using copyTo_returned_path [of serving "''/dest''" stocked local_tool web_tool served]
  by (simp add: serving_def offline_def stocked_def blank_def local_tool_def web_tool_def tool_url_def
        served_def requestOptions_def path_join_def normalize_def normalize_step_def basename_def)

text \<open>
  C5 (as amended).  The \<open>version\<close> of an \<open>ArchiveFileAsset\<close> is the \<open>version\<close> of its
  subject, with the subject's effect on the world; its \<open>cacheId\<close> is the inherited
  one, undefined, and reads nothing.
\<close>

theorem archive_identity:
  "fst (version E (Archive subject strip) w) = fst (version E subject w)
   \<and> snd (snd (version E (Archive subject strip) w)) = snd (snd (version E subject w))
   \<and> cacheId E (Archive subject strip) w = (Inr None, Archive subject strip, w)"
  by (simp add: AbstractAsset_cacheId_def split: prod.splits)

theorem archive_identity_witness:
  "fst (version offline (Archive (Web web_tool) 1) blank) = Inr (Some ''1.2.3'')
   \<and> fst (cacheId offline (Archive (Web web_tool) 1) blank) = Inr None"
  using archive_identity [of offline "Web web_tool" 1 blank]
  by (simp add: web_tool_def WebFileAsset_version_def)

text \<open>
  The \<open>cacheId\<close> of an archive is not the one of its subject: a \<open>WebFileAsset\<close> has a
  \<open>cacheId\<close>, the archive wrapping it has none.
\<close>

theorem archive_cacheId_counterexample:
  "fst (cacheId offline (Archive (Web web_tool) 1) blank) \<noteq> fst (cacheId offline (Web web_tool) blank)
   \<and> fst (cacheId offline (Web web_tool) blank) = Inr (Some ''host.example/tools/tool.zip'')"
  by (simp add: AbstractAsset_cacheId_def WebFileAsset_cacheId_def web_tool_def tool_url_def
       path_join_def normalize_def normalize_step_def)


section \<open>Properties of \<open>GitHubReleaseAsset\<close>\<close>

lemma find_release_none:
  assumes "tagRegex a = Inr rx"
    and "\<forall>r\<in>set data. match (release_tag_name r) (matcher rx) = None"
  shows "find_release a data = Inr None"
  using assms by (induction data) auto

lemma find_release_first:
  assumes "tagRegex a = Inr rx"
    and "\<forall>x\<in>set pre. match (release_tag_name x) (matcher rx) = None"
    and "match (release_tag_name r) (matcher rx) \<noteq> None"
  shows "find_release a (pre @ r # post) = Inr (Some r)"
  using assms by (induction pre) auto

lemma find_release_Some:
  assumes "find_release a data = Inr (Some r)"
  shows "\<exists>rx pre post. tagRegex a = Inr rx \<and> data = pre @ r # post
            \<and> (\<forall>x\<in>set pre. match (release_tag_name x) (matcher rx) = None)
            \<and> match (release_tag_name r) (matcher rx) \<noteq> None"
  using assms
proof (induction data)
  case Nil
  then show ?case by simp
next
  case (Cons x xs)
  from Cons.prems obtain rx where rx: "tagRegex a = Inr rx"
    by (auto split: sum.splits)
  show ?case
  proof (cases "match (release_tag_name x) (matcher rx) \<noteq> None")
    case True
    with Cons.prems rx have "x = r" by simp
    with True rx show ?thesis
      by (intro exI[of _ rx] exI[of _ "[]"] exI[of _ xs]) simp
  next
    case False
    with Cons.prems rx have "find_release a xs = Inr (Some r)" by simp
    from Cons.IH[OF this] rx obtain pre post where
      "xs = pre @ r # post"
      "\<forall>x\<in>set pre. match (release_tag_name x) (matcher rx) = None"
      "match (release_tag_name r) (matcher rx) \<noteq> None"
      by auto
    with False rx show ?thesis
      by (intro exI[of _ rx] exI[of _ "x # pre"] exI[of _ post]) simp
  qed
qed

lemma tagRegex_memo [simp]: "tagRegex (a\<lparr>releasePromise := p\<rparr>) = tagRegex a"
  by (simp add: tagRegex_def)

lemma release_fresh:
  assumes "releasePromise a = None"
    and "listReleases E (case token a of None \<Rightarrow> [] | Some t \<Rightarrow> t) (owner a) (repo a) = Inr data"
  shows "release E a w =
           (find_release a data, a\<lparr>releasePromise := Some (find_release a data)\<rparr>,
            called (ListReleases (owner a) (repo a)) (snd (getOctokit a w)))"
  using assms by (simp add: release_def getOctokit_def Let_def)

lemma getOctokit_key: "fst (getOctokit a w) = (case token a of None \<Rightarrow> [] | Some t \<Rightarrow> t)"
  by (simp add: getOctokit_def Let_def)

lemma source_new_RegExp:
  "new_RegExp p = Inr rx \<Longrightarrow> source rx = (if p = [] then ''(?:)'' else p)"
  by (auto simp: new_RegExp_def split: sum.splits)

text \<open>The patterns that the literal tags 1.5.0 and 3.0.0 compile to.\<close>

lemma regex_1_5_0: "new_RegExp ''v?(1.5.0)'' = Inr \<lparr>source = ''v?(1.5.0)'', matcher = Cat (Opt (Chr CHR ''v''))
           (Group 1 (Cat (Chr CHR ''1'') (Cat Dot (Cat (Chr CHR ''5'') (Cat Dot (Chr CHR ''0''))))))\<rparr>"
  by (simp add: new_RegExp_def syntax_characters_def unmodelled_characters_def disjunction_def)

lemma new_RegExp_literal_source:
  "new_RegExp (''v?('' @ s @ '')'') = Inr rx \<Longrightarrow> source rx = ''v?('' @ s @ '')''"
  by (drule source_new_RegExp) simp


lemma findReleaseAsset_no_release:
  assumes "releasePromise a = None"
    and "listReleases E (case token a of None \<Rightarrow> [] | Some t \<Rightarrow> t) (owner a) (repo a) = Inr data"
    and "tagRegex a = Inr rx"
    and "\<forall>r\<in>set data. match (release_tag_name r) (matcher rx) = None"
  shows "fst (findReleaseAsset E a w)
           = Inl (Error (''Could not find release for tag pattern '' @ source rx))"
proof -
  have "find_release a data = Inr None"
    using assms(3,4) by (rule find_release_none)
  then show ?thesis
    by (simp add: findReleaseAsset_def release_fresh[OF assms(1,2)] assms(3) split: prod.splits)
qed

lemma findReleaseAsset_no_asset:
  assumes "releasePromise a = None"
    and "listReleases E (case token a of None \<Rightarrow> [] | Some t \<Rightarrow> t) (owner a) (repo a)
           = Inr (pre @ r # post)"
    and "tagRegex a = Inr rx"
    and "\<forall>x\<in>set pre. match (release_tag_name x) (matcher rx) = None"
    and "match (release_tag_name r) (matcher rx) \<noteq> None"
    and "listReleaseAssets E (case token a of None \<Rightarrow> [] | Some t \<Rightarrow> t) (owner a) (repo a)
           (release_id r) = Inr assets"
    and "\<forall>x\<in>set assets. asset_name x \<noteq> assetName a"
  shows "fst (findReleaseAsset E a w)
           = Inl (Error (''Could not find release asset '' @ assetName a @ '' for release ''
                         @ [CHR 0x27] @ release_tag_name r @ [CHR 0x27]))"
proof -
  have "find_release a (pre @ r # post) = Inr (Some r)"
    using assms(3,4,5) by (rule find_release_first)
  moreover have "find (\<lambda>x. asset_name x = assetName a) assets = None"
    using assms(7) by (simp add: find_None_iff)
  moreover obtain k w1 where g: "getOctokit a w = (k, w1)"
    by (cases "getOctokit a w")
  moreover have "k = (case token a of None \<Rightarrow> [] | Some t \<Rightarrow> t)"
    using getOctokit_key[of a w] g by simp
  ultimately show ?thesis
    using assms(6)
    by (simp add: findReleaseAsset_def release_fresh[OF assms(1,2)] Let_def)
qed

lemma copyTo_findReleaseAsset_rejects:
  assumes "fst (findReleaseAsset E a w) = Inl e"
  shows "map_option fst (GitHubReleaseAsset_copyTo E a dest w) = Some (Inl e)"
  using assms by (auto simp: GitHubReleaseAsset_copyTo_def split: prod.splits sum.splits)

text \<open>
  C6.  On an instance that has not resolved its release yet, with the listing \<open>data\<close>
  and the tag pattern \<open>rx\<close>: if no tag of the listing matches, \<open>copyTo\<close> rejects with
  an \<open>Error\<close> whose message ends with the source of the pattern (for a literal tag \<open>s\<close>
  that is \<open>v?(s)\<close>); if \<open>r\<close> is the first release whose tag matches and the asset list of
  \<open>r\<close> holds no asset with the asset name, \<open>copyTo\<close> rejects with an \<open>Error\<close> whose
  message names the asset name and the tag of \<open>r\<close>.
\<close>

theorem release_copyTo_not_found:
  assumes "releasePromise a = None"
    and "listReleases E (case token a of None \<Rightarrow> [] | Some t \<Rightarrow> t) (owner a) (repo a) = Inr data"
    and "tagRegex a = Inr rx"
  shows "((\<forall>r\<in>set data. match (release_tag_name r) (matcher rx) = None) \<longrightarrow>
            map_option fst (GitHubReleaseAsset_copyTo E a dest w)
              = Some (Inl (Error (''Could not find release for tag pattern '' @ source rx))))
       \<and> (\<forall>s. tag a = Literal s \<longrightarrow> source rx = ''v?('' @ s @ '')'')
       \<and> (\<forall>pre r post assets.
             data = pre @ r # post
             \<and> (\<forall>x\<in>set pre. match (release_tag_name x) (matcher rx) = None)
             \<and> match (release_tag_name r) (matcher rx) \<noteq> None
             \<and> listReleaseAssets E (case token a of None \<Rightarrow> [] | Some t \<Rightarrow> t) (owner a) (repo a)
                  (release_id r) = Inr assets
             \<and> (\<forall>x\<in>set assets. asset_name x \<noteq> assetName a)
             \<longrightarrow> map_option fst (GitHubReleaseAsset_copyTo E a dest w)
                   = Some (Inl (Error (''Could not find release asset '' @ assetName a
                                       @ '' for release '' @ [CHR 0x27] @ release_tag_name r
                                       @ [CHR 0x27]))))"
proof (intro conjI allI impI)
  assume "\<forall>r\<in>set data. match (release_tag_name r) (matcher rx) = None"
  from findReleaseAsset_no_release[OF assms this]
  show "map_option fst (GitHubReleaseAsset_copyTo E a dest w)
          = Some (Inl (Error (''Could not find release for tag pattern '' @ source rx)))"
    by (rule copyTo_findReleaseAsset_rejects)
next
  fix s assume "tag a = Literal s"
  with assms(3) have "new_RegExp (''v?('' @ s @ '')'') = Inr rx"
    by (simp add: tagRegex_def)
  then show "source rx = ''v?('' @ s @ '')''"
    by (rule new_RegExp_literal_source)
next
  fix pre r post assets
  assume h: "data = pre @ r # post
             \<and> (\<forall>x\<in>set pre. match (release_tag_name x) (matcher rx) = None)
             \<and> match (release_tag_name r) (matcher rx) \<noteq> None
             \<and> listReleaseAssets E (case token a of None \<Rightarrow> [] | Some t \<Rightarrow> t) (owner a) (repo a)
                  (release_id r) = Inr assets
             \<and> (\<forall>x\<in>set assets. asset_name x \<noteq> assetName a)"
  have "fst (findReleaseAsset E a w)
           = Inl (Error (''Could not find release asset '' @ assetName a @ '' for release ''
                         @ [CHR 0x27] @ release_tag_name r @ [CHR 0x27]))"
    using assms(1) assms(2)[unfolded conjunct1[OF h]] assms(3) h
    by (intro findReleaseAsset_no_asset) blast+
  then show "map_option fst (GitHubReleaseAsset_copyTo E a dest w)
                   = Some (Inl (Error (''Could not find release asset '' @ assetName a
                                       @ '' for release '' @ [CHR 0x27] @ release_tag_name r
                                       @ [CHR 0x27])))"
    by (rule copyTo_findReleaseAsset_rejects)
qed

lemma regex_3_0_0: "new_RegExp ''v?(3.0.0)'' = Inr \<lparr>source = ''v?(3.0.0)'', matcher = Cat (Opt (Chr CHR ''v''))
           (Group 1 (Cat (Chr CHR ''3'') (Cat Dot (Cat (Chr CHR ''0'') (Cat Dot (Chr CHR ''0''))))))\<rparr>"
  by (simp add: new_RegExp_def syntax_characters_def unmodelled_characters_def disjunction_def)

theorem release_copyTo_not_found_witness:
  "map_option fst (GitHubReleaseAsset_copyTo releasing (my_tool ''3.0.0'' ''my-tool-linux-x64'') (Some ''/d'') blank)
     = Some (Inl (Error ''Could not find release for tag pattern v?(3.0.0)''))
   \<and> map_option fst (GitHubReleaseAsset_copyTo releasing (my_tool ''1.5.0'' ''my-tool-darwin-arm64'') (Some ''/d'') blank)
     = Some (Inl (Error (''Could not find release asset my-tool-darwin-arm64 for release ''
                         @ [CHR 0x27] @ ''v1.5.0'' @ [CHR 0x27])))"
proof -
  let ?a = "my_tool ''3.0.0'' ''my-tool-linux-x64''"
  let ?b = "my_tool ''1.5.0'' ''my-tool-darwin-arm64''"
  have a1: "releasePromise ?a = None" and b1: "releasePromise ?b = None"
    by (simp_all add: my_tool_def new_GitHubReleaseAsset_def)
  have a2: "listReleases releasing (case token ?a of None \<Rightarrow> [] | Some t \<Rightarrow> t) (owner ?a) (repo ?a)
              = Inr three_releases"
    and b2: "listReleases releasing (case token ?b of None \<Rightarrow> [] | Some t \<Rightarrow> t) (owner ?b) (repo ?b)
              = Inr three_releases"
    by (simp_all add: my_tool_def new_GitHubReleaseAsset_def releasing_def)
  have a3: "tagRegex ?a = new_RegExp ''v?(3.0.0)''" and b3: "tagRegex ?b = new_RegExp ''v?(1.5.0)''"
    by (simp_all add: my_tool_def new_GitHubReleaseAsset_def tagRegex_def)
  note A = release_copyTo_not_found[OF a1 a2 a3[unfolded regex_3_0_0], of "Some ''/d''" blank]
  note B = release_copyTo_not_found[OF b1 b2 b3[unfolded regex_1_5_0], of "Some ''/d''" blank]
  have "map_option fst (GitHubReleaseAsset_copyTo releasing ?a (Some ''/d'') blank)
     = Some (Inl (Error ''Could not find release for tag pattern v?(3.0.0)''))"
    using A by (simp add: three_releases_def)
  moreover have "map_option fst (GitHubReleaseAsset_copyTo releasing ?b (Some ''/d'') blank)
     = Some (Inl (Error (''Could not find release asset my-tool-darwin-arm64 for release ''
                         @ [CHR 0x27] @ ''v1.5.0'' @ [CHR 0x27])))"
    using conjunct2[OF conjunct2[OF B], rule_format,
        of "[\<lparr>release_id = 30, release_tag_name = ''v2.0.0''\<rparr>]"
           "\<lparr>release_id = 20, release_tag_name = ''v1.5.0''\<rparr>"
           "[\<lparr>release_id = 10, release_tag_name = ''v1.0.0''\<rparr>]"
           "[\<lparr>asset_name = ''my-tool-linux-x64'', asset_url = ''https://api.example/asset''\<rparr>]"]
    by (simp add: three_releases_def my_tool_def new_GitHubReleaseAsset_def releasing_def)
  ultimately show ?thesis by simp
qed

text \<open>
  C9.  On an instance that has not resolved its release yet and whose tag pattern
  matches no tag of the listing, \<open>version\<close> resolves to undefined, \<open>cacheId\<close> resolves
  to \<open>owner/repo/undefined\<close>, and \<open>copyTo\<close> rejects with the release-not-found error.
\<close>

theorem release_no_match:
  assumes "releasePromise a = None"
    and "listReleases E (case token a of None \<Rightarrow> [] | Some t \<Rightarrow> t) (owner a) (repo a) = Inr data"
    and "tagRegex a = Inr rx"
    and "\<forall>r\<in>set data. match (release_tag_name r) (matcher rx) = None"
  shows "fst (GitHubReleaseAsset_version E a w) = Inr None
       \<and> fst (GitHubReleaseAsset_cacheId E a w) = Inr (owner a @ ''/'' @ repo a @ ''/undefined'')
       \<and> map_option fst (GitHubReleaseAsset_copyTo E a dest w)
           = Some (Inl (Error (''Could not find release for tag pattern '' @ source rx)))"
proof -
  have none: "find_release a data = Inr None"
    using assms(3,4) by (rule find_release_none)
  have v: "fst (GitHubReleaseAsset_version E a w) = Inr None"
    by (simp add: GitHubReleaseAsset_version_def release_fresh[OF assms(1,2)] none)
  have c: "fst (GitHubReleaseAsset_cacheId E a w) = Inr (owner a @ ''/'' @ repo a @ ''/undefined'')"
    by (simp add: GitHubReleaseAsset_cacheId_def release_fresh[OF assms(1,2)] none)
  have "map_option fst (GitHubReleaseAsset_copyTo E a dest w)
           = Some (Inl (Error (''Could not find release for tag pattern '' @ source rx)))"
    using findReleaseAsset_no_release[OF assms] by (rule copyTo_findReleaseAsset_rejects)
  with v c show ?thesis by simp
qed

theorem release_no_match_witness:
  "fst (GitHubReleaseAsset_version releasing (my_tool ''3.0.0'' ''my-tool-linux-x64'') blank) = Inr None
   \<and> fst (GitHubReleaseAsset_cacheId releasing (my_tool ''3.0.0'' ''my-tool-linux-x64'') blank)
       = Inr ''my-org/my-tool/undefined''
   \<and> map_option fst (GitHubReleaseAsset_copyTo releasing (my_tool ''3.0.0'' ''my-tool-linux-x64'')
                        (Some ''/d'') blank)
       = Some (Inl (Error ''Could not find release for tag pattern v?(3.0.0)''))"
proof -
  let ?a = "my_tool ''3.0.0'' ''my-tool-linux-x64''"
  have a1: "releasePromise ?a = None"
    by (simp add: my_tool_def new_GitHubReleaseAsset_def)
  have a2: "listReleases releasing (case token ?a of None \<Rightarrow> [] | Some t \<Rightarrow> t) (owner ?a) (repo ?a)
              = Inr three_releases"
    by (simp add: my_tool_def new_GitHubReleaseAsset_def releasing_def)
  have a3: "tagRegex ?a = new_RegExp ''v?(3.0.0)''"
    by (simp add: my_tool_def new_GitHubReleaseAsset_def tagRegex_def)
  have a4: "\<forall>r\<in>set three_releases. match (release_tag_name r)
              (Cat (Opt (Chr CHR ''v''))
                 (Group 1 (Cat (Chr CHR ''3'') (Cat Dot (Cat (Chr CHR ''0'') (Cat Dot (Chr CHR ''0''))))))) = None"
    by (simp add: three_releases_def)
  from release_no_match[OF a1 a2 a3[unfolded regex_3_0_0], of blank "Some ''/d''"] a4
  show ?thesis by (simp add: my_tool_def new_GitHubReleaseAsset_def)
qed

text \<open>
  C3.  On an instance with the literal tag \<open>s\<close> that has not resolved its release yet:
  the tag pattern is the regular expression \<open>v?(s)\<close>; if \<open>r\<close> is the first release of
  the listing whose tag matches, with captures \<open>c\<close>, then \<open>r\<close> is the release selected,
  \<open>version\<close> is the first capture group and \<open>cacheId\<close> is \<open>owner/repo/tag\<close>; a release
  that is selected is the first of the listing whose tag matches; so for the tag 1.5.0
  and the listing v2.0.0, v1.5.0, v1.0.0 the \<open>version\<close> is 1.5.0 and the \<open>cacheId\<close>
  contains v1.5.0.
\<close>

theorem release_literal_tag:
  assumes "releasePromise a = None" and "tag a = Literal s"
    and "listReleases E (case token a of None \<Rightarrow> [] | Some t \<Rightarrow> t) (owner a) (repo a) = Inr data"
  shows "tagRegex a = new_RegExp (''v?('' @ s @ '')'')
       \<and> (\<forall>rx pre r post c.
             new_RegExp (''v?('' @ s @ '')'') = Inr rx
             \<and> data = pre @ r # post
             \<and> (\<forall>x\<in>set pre. match (release_tag_name x) (matcher rx) = None)
             \<and> match (release_tag_name r) (matcher rx) = Some c
             \<longrightarrow> fst (release E a w) = Inr (Some r)
                 \<and> fst (GitHubReleaseAsset_version E a w) = Inr (c 1)
                 \<and> fst (GitHubReleaseAsset_cacheId E a w)
                     = Inr (owner a @ ''/'' @ repo a @ ''/'' @ release_tag_name r))
       \<and> (\<forall>r. fst (release E a w) = Inr (Some r) \<longrightarrow>
             (\<exists>rx pre post.
                new_RegExp (''v?('' @ s @ '')'') = Inr rx
                \<and> data = pre @ r # post
                \<and> (\<forall>x\<in>set pre. match (release_tag_name x) (matcher rx) = None)
                \<and> match (release_tag_name r) (matcher rx) \<noteq> None))
       \<and> (s = ''1.5.0'' \<and> map release_tag_name data = [''v2.0.0'', ''v1.5.0'', ''v1.0.0'']
            \<longrightarrow> fst (GitHubReleaseAsset_version E a w) = Inr (Some ''1.5.0'')
                \<and> fst (GitHubReleaseAsset_cacheId E a w) = Inr (owner a @ ''/'' @ repo a @ ''/v1.5.0'')
                \<and> sublist ''v1.5.0'' (owner a @ ''/'' @ repo a @ ''/v1.5.0''))"
proof -
  have t: "tagRegex a = new_RegExp (''v?('' @ s @ '')'')"
    using assms(2) by (simp add: tagRegex_def)
  have first: "fst (release E a w) = Inr (Some r)
                 \<and> fst (GitHubReleaseAsset_version E a w) = Inr (c 1)
                 \<and> fst (GitHubReleaseAsset_cacheId E a w)
                     = Inr (owner a @ ''/'' @ repo a @ ''/'' @ release_tag_name r)"
    if h: "new_RegExp (''v?('' @ s @ '')'') = Inr rx" "data = pre @ r # post"
       "\<forall>x\<in>set pre. match (release_tag_name x) (matcher rx) = None"
       "match (release_tag_name r) (matcher rx) = Some c"
    for rx pre r post c
  proof -
    have rx: "tagRegex a = Inr rx" using t h(1) by simp
    have "find_release a data = Inr (Some r)"
      unfolding h(2) using rx h(3) h(4) by (intro find_release_first) auto
    then show ?thesis
      using rx h(4)
      by (simp add: GitHubReleaseAsset_version_def GitHubReleaseAsset_cacheId_def
            release_fresh[OF assms(1,3)])
  qed
  have example: "fst (GitHubReleaseAsset_version E a w) = Inr (Some ''1.5.0'')
                \<and> fst (GitHubReleaseAsset_cacheId E a w) = Inr (owner a @ ''/'' @ repo a @ ''/v1.5.0'')
                \<and> sublist ''v1.5.0'' (owner a @ ''/'' @ repo a @ ''/v1.5.0'')"
    if e: "s = ''1.5.0''" "map release_tag_name data = [''v2.0.0'', ''v1.5.0'', ''v1.0.0'']"
  proof -
    from e(2) obtain r1 r2 r3 where d: "data = [r1] @ r2 # [r3]"
      and n: "release_tag_name r1 = ''v2.0.0''" "release_tag_name r2 = ''v1.5.0''"
      by (auto simp: map_eq_Cons_conv)
    let ?rx = "\<lparr>source = ''v?(1.5.0)'', matcher = Cat (Opt (Chr CHR ''v''))
           (Group 1 (Cat (Chr CHR ''1'') (Cat Dot (Cat (Chr CHR ''5'') (Cat Dot (Chr CHR ''0''))))))\<rparr>"
    have m1: "\<forall>x\<in>set [r1]. match (release_tag_name x) (matcher ?rx) = None"
      by (simp add: n)
    have m2: "match (release_tag_name r2) (matcher ?rx) = Some [1 \<mapsto> ''1.5.0'', 0 \<mapsto> ''v1.5.0'']"
      by (simp add: n)
    have "new_RegExp (''v?('' @ s @ '')'') = Inr ?rx"
      using regex_1_5_0 e(1) by simp
    from first[OF this d m1 m2]
    have "fst (GitHubReleaseAsset_version E a w) = Inr (Some ''1.5.0'')"
      "fst (GitHubReleaseAsset_cacheId E a w) = Inr (owner a @ ''/'' @ repo a @ ''/v1.5.0'')"
      by (simp_all add: n)
    moreover have "sublist ''v1.5.0'' (owner a @ ''/'' @ repo a @ ''/v1.5.0'')"
      by (rule sublist_order.order.trans[OF suffix_imp_sublist[of "''v1.5.0''" "''/v1.5.0''"]]) 
         (auto simp: suffix_def intro: suffix_imp_sublist)
    ultimately show ?thesis by simp
  qed
  have selected: "\<exists>rx pre post.
                new_RegExp (''v?('' @ s @ '')'') = Inr rx
                \<and> data = pre @ r # post
                \<and> (\<forall>x\<in>set pre. match (release_tag_name x) (matcher rx) = None)
                \<and> match (release_tag_name r) (matcher rx) \<noteq> None"
    if "fst (release E a w) = Inr (Some r)" for r
  proof -
    from that have "find_release a data = Inr (Some r)"
      by (simp add: release_fresh[OF assms(1,3)])
    from find_release_Some[OF this] show ?thesis
      unfolding t .
  qed
  from t first selected example show ?thesis by blast
qed

theorem release_literal_tag_witness:
  "tagRegex (my_tool ''1.5.0'' ''my-tool-linux-x64'') = new_RegExp ''v?(1.5.0)''
   \<and> fst (GitHubReleaseAsset_version releasing (my_tool ''1.5.0'' ''my-tool-linux-x64'') blank)
       = Inr (Some ''1.5.0'')
   \<and> fst (GitHubReleaseAsset_cacheId releasing (my_tool ''1.5.0'' ''my-tool-linux-x64'') blank)
       = Inr ''my-org/my-tool/v1.5.0''"
proof -
  let ?a = "my_tool ''1.5.0'' ''my-tool-linux-x64''"
  have a1: "releasePromise ?a = None" and a2: "tag ?a = Literal ''1.5.0''"
    by (simp_all add: my_tool_def new_GitHubReleaseAsset_def)
  have a3: "listReleases releasing (case token ?a of None \<Rightarrow> [] | Some t \<Rightarrow> t) (owner ?a) (repo ?a)
              = Inr three_releases"
    by (simp add: my_tool_def new_GitHubReleaseAsset_def releasing_def)
  from release_literal_tag[OF a1 a2 a3, of blank]
  show ?thesis by (simp add: three_releases_def my_tool_def new_GitHubReleaseAsset_def)
qed


section \<open>Properties of \<open>GitHubWorkflowAsset\<close>\<close>

text \<open>What the helpers add to the log of API requests.\<close>

lemma api_calls_written [simp]: "api_calls (written p c w) = api_calls w"
  by (simp add: written_def)

lemma api_calls_mkDest [simp]: "api_calls (snd (mkDest E dest w)) = api_calls w"
  by (simp add: mkDest_def Let_def)

lemma api_calls_mkTempDir [simp]: "api_calls (snd (mkTempDir E w)) = api_calls w"
  by (simp add: mkTempDir_def Let_def)

lemma api_calls_getOctokit [simp]: "api_calls (snd (getOctokit a w)) = api_calls w"
  by (simp add: getOctokit_def Let_def)

lemma api_calls_unpack:
  "api_calls (fold (\<lambda>(p, c) w'. case strip_path n p of None \<Rightarrow> w'
                                   | Some q \<Rightarrow> written (path_join [d, q]) c w') entries w)
     = api_calls w"
  by (induction entries arbitrary: w) (auto split: option.splits)

lemma api_calls_extractArchive [simp]:
  "api_calls (snd (extractArchive E p dest n w)) = api_calls w"
proof (cases "mkDest E dest w")
  case (Pair r w1)
  with api_calls_mkDest[of E dest w] have "api_calls w1 = api_calls w" by simp
  with Pair show ?thesis
    by (auto simp: extractArchive_def api_calls_unpack split: sum.splits option.splits)
qed

lemma api_calls_downloadArtifact:
  "\<exists>rest. api_calls (snd (GitHubWorkflowAsset_downloadArtifact E a n p w)) = api_calls w @ rest"
  by (cases "getOctokit a w")
     (use api_calls_getOctokit[of a w] in
       \<open>auto simp: GitHubWorkflowAsset_downloadArtifact_def called_def writeFile_def Let_def
             split: sum.splits prod.splits\<close>)

text \<open>
  The first resolution: the page of one run with status \<open>success\<close> holds the first
  successful run of the history.
\<close>

lemma lastWorkflowRun_fresh:
  assumes "lastWorkflowRunPromise a = None"
    and "workflow_runs E (case token a of None \<Rightarrow> [] | Some t \<Rightarrow> t) (owner a) (repo a) (workflow a)
           = Inr (pre @ r # post)"
    and "\<forall>x\<in>set pre. run_status x \<noteq> ''success'' \<and> run_conclusion x \<noteq> Some ''success''"
    and "run_status r = ''success'' \<or> run_conclusion r = Some ''success''"
  shows "lastWorkflowRun E a w =
           (Inr (Some r), a\<lparr>lastWorkflowRunPromise := Some (Inr (Some r))\<rparr>,
            called (ListWorkflowRuns (owner a) (repo a) (workflow a) 1 ''success'')
              (snd (getOctokit a w)))"
proof -
  have "filter (\<lambda>x. run_status x = ''success'' \<or> run_conclusion x = Some ''success'') pre = []"
    using assms(3) by (auto simp: filter_empty_conv)
  then have "take 1 (filter (\<lambda>x. run_status x = ''success'' \<or> run_conclusion x = Some ''success'')
                       (pre @ r # post)) = [r]"
    using assms(4) by simp
  then show ?thesis
    using assms(1,2)
    by (simp add: lastWorkflowRun_def listWorkflowRuns_def getOctokit_def Let_def)
qed


text \<open>
  \<open>copyTo\<close>, once the temporary directory is made: the artifacts listed are those of
  the run resolved.
\<close>

lemma copyTo_uses_run:
  assumes "lastWorkflowRunPromise a = None"
    and "workflow_runs E (case token a of None \<Rightarrow> [] | Some t \<Rightarrow> t) (owner a) (repo a) (workflow a)
           = Inr (pre @ r # post)"
    and "\<forall>x\<in>set pre. run_status x \<noteq> ''success'' \<and> run_conclusion x \<noteq> Some ''success''"
    and "run_status r = ''success'' \<or> run_conclusion r = Some ''success''"
    and "mkdir E (temp_name E (temps w))"
  shows "\<exists>rest. api_calls (snd (snd (GitHubWorkflowAsset_copyTo E a dest w)))
           = api_calls w @ ListWorkflowRuns (owner a) (repo a) (workflow a) 1 ''success''
               # ListWorkflowRunArtifacts (owner a) (repo a) (run_id r) # rest"
    and "lastWorkflowRunPromise (fst (snd (GitHubWorkflowAsset_copyTo E a dest w)))
           = Some (Inr (Some r))"
proof -
  obtain k w1 where g: "getOctokit a w = (k, w1)" by (cases "getOctokit a w")
  have w1: "api_calls w1 = api_calls w" "temps w1 = temps w"
    using g by (auto simp: getOctokit_def Let_def split: if_splits)
  define w2 where "w2 = w1\<lparr>dirs := dirs w1 @ [temp_name E (temps w)], temps := Suc (temps w)\<rparr>"
  have t: "mkTempDir E w1 = (Inr (temp_name E (temps w)), w2)"
    using assms(5) w1 by (simp add: mkTempDir_def w2_def Let_def)
  have w2: "api_calls w2 = api_calls w" by (simp add: w2_def w1)
  define w3 where "w3 = called (ListWorkflowRuns (owner a) (repo a) (workflow a) 1 ''success'')
                          (snd (getOctokit a w2))"
  define a1 where "a1 = a\<lparr>lastWorkflowRunPromise := Some (Inr (Some r))\<rparr>"
  have l: "lastWorkflowRun E a w2 = (Inr (Some r), a1, w3)"
    unfolding w3_def a1_def by (rule lastWorkflowRun_fresh[OF assms(1-4)])
  have w3: "api_calls w3 = api_calls w @ [ListWorkflowRuns (owner a) (repo a) (workflow a) 1 ''success'']"
    by (simp add: w3_def called_def w2)
  define w4 where "w4 = called (ListWorkflowRunArtifacts (owner a) (repo a) (run_id r)) w3"
  have w4: "api_calls w4 = api_calls w @ [ListWorkflowRuns (owner a) (repo a) (workflow a) 1 ''success'',
                ListWorkflowRunArtifacts (owner a) (repo a) (run_id r)]"
    by (simp add: w4_def called_def w3)
  have d: "\<exists>rest. api_calls (snd (GitHubWorkflowAsset_downloadArtifact E a1 n p w4)) = api_calls w4 @ rest"
    for n p by (rule api_calls_downloadArtifact)
  have x: "api_calls (snd (extractArchive E p dest 0 w5)) = api_calls w5" for p w5
    by simp
  have c: "GitHubWorkflowAsset_copyTo E a dest w =
     (case listWorkflowRunArtifacts E k (owner a) (repo a) (run_id r) of
                        Inl e \<Rightarrow> (Inl e, a1, w4)
                      | Inr artifacts \<Rightarrow>
                          (case find_artifact (artifactName a) artifacts of
                             Inl e \<Rightarrow> (Inl e, a1, w4)
                           | Inr None \<Rightarrow>
                               (Inl (Error (''No artifact found matching ''
                                            @ show_pattern (artifactName a)
                                            @ '' in workflow run '' @ show_nat (run_id r))),
                                a1, w4)
                           | Inr (Some artifact) \<Rightarrow>
                               (case GitHubWorkflowAsset_downloadArtifact E a1 (artifact_id artifact)
                                       (path_join [temp_name E (temps w), artifact_name artifact @ ''.zip'']) w4 of
                                  (Inl e, w5) \<Rightarrow> (Inl e, a1, w5)
                                | (Inr p, w5) \<Rightarrow>
                                    (case extractArchive E p dest 0 w5 of
                                       (r, w6) \<Rightarrow> (r, a1, w6)))))"
    unfolding w4_def by (simp add: GitHubWorkflowAsset_copyTo_def g t l Let_def)
  show "lastWorkflowRunPromise (fst (snd (GitHubWorkflowAsset_copyTo E a dest w)))
           = Some (Inr (Some r))"
    unfolding c by (simp add: a1_def split: sum.splits option.splits prod.splits)
  show "\<exists>rest. api_calls (snd (snd (GitHubWorkflowAsset_copyTo E a dest w)))
           = api_calls w @ ListWorkflowRuns (owner a) (repo a) (workflow a) 1 ''success''
               # ListWorkflowRunArtifacts (owner a) (repo a) (run_id r) # rest"
  proof (cases "listWorkflowRunArtifacts E k (owner a) (repo a) (run_id r)")
    case (Inl e)
    then show ?thesis unfolding c by (simp add: w4)
  next
    case (Inr artifacts)
    show ?thesis
    proof (cases "find_artifact (artifactName a) artifacts")
      case (Inl e)
      with Inr show ?thesis unfolding c by (simp add: w4)
    next
      case fa: (Inr found)
      show ?thesis
      proof (cases found)
        case None
        with Inr fa show ?thesis unfolding c by (simp add: w4)
      next
        case (Some artifact)
        let ?p = "path_join [temp_name E (temps w), artifact_name artifact @ ''.zip'']"
        obtain res w5 where dl: "GitHubWorkflowAsset_downloadArtifact E a1 (artifact_id artifact) ?p w4 = (res, w5)"
          by (cases "GitHubWorkflowAsset_downloadArtifact E a1 (artifact_id artifact) ?p w4")
        from d[of "artifact_id artifact" ?p] dl obtain rest where
          w5: "api_calls w5 = api_calls w4 @ rest" by auto
        show ?thesis
        proof (cases res)
          case (Inl e)
          with Inr fa Some dl show ?thesis unfolding c by (simp add: w5 w4)
        next
          case r: (Inr q)
          obtain r6 w6 where ex: "extractArchive E q dest 0 w5 = (r6, w6)"
            by (cases "extractArchive E q dest 0 w5")
          with x[of q w5] have "api_calls w6 = api_calls w5" by simp
          with Inr fa Some dl r ex show ?thesis unfolding c by (simp add: w5 w4)
        qed
      qed
    qed
  qed
qed

text \<open>
  C4.  On an instance that has not resolved its run yet, with a run history (newest
  first) in which \<open>r\<close> is the first successful run, after any number of runs that are
  not successful: the run resolved is \<open>r\<close>; \<open>version\<close> is the workflow file name, an
  \<open>@\<close> and the id of \<open>r\<close>; \<open>cacheId\<close> is owner, repository, workflow and that id;
  \<open>copyTo\<close> lists the artifacts of \<open>r\<close>; and each of the three leaves \<open>r\<close> in the
  memo field, so that a later query uses the same run.
\<close>

theorem workflow_last_successful_run:
  assumes "lastWorkflowRunPromise a = None"
    and "workflow_runs E (case token a of None \<Rightarrow> [] | Some t \<Rightarrow> t) (owner a) (repo a) (workflow a)
           = Inr (pre @ r # post)"
    and "\<forall>x\<in>set pre. run_status x \<noteq> ''success'' \<and> run_conclusion x \<noteq> Some ''success''"
    and "run_status r = ''success'' \<or> run_conclusion r = Some ''success''"
  shows "fst (lastWorkflowRun E a w) = Inr (Some r)
       \<and> fst (GitHubWorkflowAsset_version E a w) = Inr (workflow a @ ''@'' @ show_nat (run_id r))
       \<and> fst (GitHubWorkflowAsset_cacheId E a w)
           = Inr (owner a @ ''/'' @ repo a @ ''/'' @ workflow a @ ''/'' @ show_nat (run_id r))
       \<and> lastWorkflowRunPromise (fst (snd (GitHubWorkflowAsset_version E a w))) = Some (Inr (Some r))
       \<and> lastWorkflowRunPromise (fst (snd (GitHubWorkflowAsset_cacheId E a w))) = Some (Inr (Some r))
       \<and> (mkdir E (temp_name E (temps w)) \<longrightarrow>
            lastWorkflowRunPromise (fst (snd (GitHubWorkflowAsset_copyTo E a dest w)))
              = Some (Inr (Some r))
            \<and> (\<exists>rest. api_calls (snd (snd (GitHubWorkflowAsset_copyTo E a dest w)))
                  = api_calls w @ ListWorkflowRuns (owner a) (repo a) (workflow a) 1 ''success''
                      # ListWorkflowRunArtifacts (owner a) (repo a) (run_id r) # rest))"
proof -
  note l = lastWorkflowRun_fresh[OF assms, of w]
  have "fst (lastWorkflowRun E a w) = Inr (Some r)"
    by (simp add: l)
  moreover have "fst (GitHubWorkflowAsset_version E a w) = Inr (workflow a @ ''@'' @ show_nat (run_id r))"
    "lastWorkflowRunPromise (fst (snd (GitHubWorkflowAsset_version E a w))) = Some (Inr (Some r))"
    by (simp_all add: GitHubWorkflowAsset_version_def l)
  moreover have "fst (GitHubWorkflowAsset_cacheId E a w)
           = Inr (owner a @ ''/'' @ repo a @ ''/'' @ workflow a @ ''/'' @ show_nat (run_id r))"
    "lastWorkflowRunPromise (fst (snd (GitHubWorkflowAsset_cacheId E a w))) = Some (Inr (Some r))"
    by (simp_all add: GitHubWorkflowAsset_cacheId_def l)
  ultimately show ?thesis
    using copyTo_uses_run[OF assms, of w dest] by blast
qed

theorem workflow_last_successful_run_witness:
  "fst (GitHubWorkflowAsset_version building nightly blank) = Inr ''build.yml@9012''
   \<and> fst (GitHubWorkflowAsset_cacheId building nightly blank) = Inr ''my-org/my-tool/build.yml/9012''
   \<and> take 2 (api_calls (snd (snd (GitHubWorkflowAsset_copyTo building nightly (Some ''/d'') blank))))
       = [ListWorkflowRuns ''my-org'' ''my-tool'' ''build.yml'' 1 ''success'',
          ListWorkflowRunArtifacts ''my-org'' ''my-tool'' 9012]"
proof -
  have a1: "lastWorkflowRunPromise nightly = None"
    by (simp add: nightly_def new_GitHubWorkflowAsset_def)
  have a2: "workflow_runs building (case token nightly of None \<Rightarrow> [] | Some t \<Rightarrow> t) (owner nightly)
              (repo nightly) (workflow nightly)
              = Inr ([run_pending 14, run_failed 13] @ run_passed 12 # [run_passed 11])"
    by (simp add: building_def)
  have a3: "\<forall>x\<in>set [run_pending 14, run_failed 13].
              run_status x \<noteq> ''success'' \<and> run_conclusion x \<noteq> Some ''success''"
    by (simp add: run_pending_def run_failed_def)
  have a4: "run_status (run_passed 12) = ''success'' \<or> run_conclusion (run_passed 12) = Some ''success''"
    by (simp add: run_passed_def)
  have m: "mkdir building (temp_name building (temps blank))"
    by (simp add: building_def offline_def)
  from workflow_last_successful_run[OF a1 a2 a3 a4, of blank "Some ''/d''"] m
  show ?thesis
    by (auto simp: nightly_def new_GitHubWorkflowAsset_def run_passed_def show_nat.simps blank_def)
qed

text \<open>
  C7.  A workflow without a successful run: the page of runs is empty, the memoized
  value is undefined, and \<open>version\<close>, \<open>cacheId\<close> and \<open>copyTo\<close> reject with the engine's
  \<open>TypeError\<close> for reading \<open>id\<close> of undefined, whose message names neither the workflow
  nor the repository.
\<close>

theorem workflow_no_successful_run:
  "fst (GitHubWorkflowAsset_version broken_build nightly blank) = Inl (undefined_read ''id'')
   \<and> fst (GitHubWorkflowAsset_cacheId broken_build nightly blank) = Inl (undefined_read ''id'')
   \<and> fst (GitHubWorkflowAsset_copyTo broken_build nightly (Some ''/d'') blank) = Inl (undefined_read ''id'')
   \<and> message (undefined_read ''id'')
       = ''Cannot read properties of undefined (reading '' @ [CHR 0x27] @ ''id'' @ [CHR 0x27] @ '')''"
  by (simp add: GitHubWorkflowAsset_version_def GitHubWorkflowAsset_cacheId_def
        GitHubWorkflowAsset_copyTo_def lastWorkflowRun_def listWorkflowRuns_def getOctokit_def
        mkTempDir_def called_def broken_build_def offline_def nightly_def
        new_GitHubWorkflowAsset_def run_pending_def run_failed_def blank_def undefined_read_def
        Let_def)


section \<open>Memoization of the resolutions\<close>

text \<open>
  Each getter does to the instance and to the world what the resolution it reads does;
  a resolution logs one request unless the memo is filled, fills the memo (the ref map
  only if the request succeeded), and changes nothing once the memo is filled.
\<close>

lemma release_state:
  "snd (GitHubReleaseAsset_version E a w) = snd (release E a w)"
  "snd (GitHubReleaseAsset_cacheId E a w) = snd (release E a w)"
  by (simp_all add: GitHubReleaseAsset_version_def GitHubReleaseAsset_cacheId_def split: prod.splits)

lemma release_calls:
  "api_calls (snd (snd (release E a w)))
     = api_calls w @ (if releasePromise a = None then [ListReleases (owner a) (repo a)] else [])"
  by (auto simp: release_def getOctokit_def called_def Let_def split: option.splits)

lemma release_memoized:
  "releasePromise (fst (snd (release E a w))) \<noteq> None"
  by (auto simp: release_def Let_def split: option.splits prod.splits)

lemma release_again:
  "releasePromise a \<noteq> None \<Longrightarrow> snd (release E a w) = (a, w)"
  by (auto simp: release_def split: option.splits)

lemma run_state:
  "snd (GitHubWorkflowAsset_version E a w) = snd (lastWorkflowRun E a w)"
  "snd (GitHubWorkflowAsset_cacheId E a w) = snd (lastWorkflowRun E a w)"
  by (simp_all add: GitHubWorkflowAsset_version_def GitHubWorkflowAsset_cacheId_def split: prod.splits)

lemma run_calls:
  "api_calls (snd (snd (lastWorkflowRun E a w)))
     = api_calls w @ (if lastWorkflowRunPromise a = None
                      then [ListWorkflowRuns (owner a) (repo a) (workflow a) 1 ''success''] else [])"
  by (auto simp: lastWorkflowRun_def getOctokit_def called_def Let_def split: option.splits)

lemma run_memoized:
  "lastWorkflowRunPromise (fst (snd (lastWorkflowRun E a w))) \<noteq> None"
  by (auto simp: lastWorkflowRun_def Let_def split: option.splits prod.splits)

lemma run_again:
  "lastWorkflowRunPromise a \<noteq> None \<Longrightarrow> snd (lastWorkflowRun E a w) = (a, w)"
  by (auto simp: lastWorkflowRun_def split: option.splits)

lemma ref_state:
  "snd (GitHubRepoAsset_version E a w) = snd (resolveRef E a (ref a) w)"
  "snd (GitHubRepoAsset_cacheId E a w) = snd (resolveRef E a (ref a) w)"
  "isl (fst (GitHubRepoAsset_version E a w)) = isl (fst (resolveRef E a (ref a) w))"
  "isl (fst (GitHubRepoAsset_cacheId E a w)) = isl (fst (resolveRef E a (ref a) w))"
  by (simp_all add: GitHubRepoAsset_version_def GitHubRepoAsset_cacheId_def
        split: prod.splits sum.splits)

lemma ref_calls:
  "api_calls (snd (snd (resolveRef E a r w)))
     = api_calls w @ (if refs a r = None then [GetRef (owner a) (repo a) r] else [])"
  by (auto simp: resolveRef_def getOctokit_def called_def Let_def split: option.splits sum.splits)

lemma ref_memoized:
  "\<not> isl (fst (resolveRef E a r w)) \<Longrightarrow> refs (fst (snd (resolveRef E a r w))) r \<noteq> None"
  by (auto simp: resolveRef_def Let_def split: option.splits prod.splits sum.splits)

lemma ref_again:
  "refs a r \<noteq> None \<Longrightarrow> snd (resolveRef E a r w) = (a, w)"
  by (auto simp: resolveRef_def split: option.splits)

lemma ref_kept: "ref (fst (snd (resolveRef E a r w))) = ref a"
  by (auto simp: resolveRef_def Let_def split: option.splits prod.splits sum.splits)


lemma release_twice:
  assumes "snd (release E a w) = (a1, w1)"
  shows "length (calls_between w w1) \<le> 1
       \<and> snd (GitHubReleaseAsset_version E a1 w1) = (a1, w1)
       \<and> snd (GitHubReleaseAsset_cacheId E a1 w1) = (a1, w1)"
proof -
  have "api_calls w1 = api_calls w @ (if releasePromise a = None then [ListReleases (owner a) (repo a)] else [])"
    using release_calls[of E a w] assms by simp
  then have "length (calls_between w w1) \<le> 1"
    by (simp add: calls_between_def)
  moreover have "releasePromise a1 \<noteq> None"
    using release_memoized[of E a w] assms by simp
  then have "snd (release E a1 w1) = (a1, w1)"
    by (rule release_again)
  ultimately show ?thesis by (simp add: release_state)
qed

lemma run_twice:
  assumes "snd (lastWorkflowRun E c w) = (c1, w1)"
  shows "length (calls_between w w1) \<le> 1
       \<and> snd (GitHubWorkflowAsset_version E c1 w1) = (c1, w1)
       \<and> snd (GitHubWorkflowAsset_cacheId E c1 w1) = (c1, w1)"
proof -
  have "api_calls w1 = api_calls w @ (if lastWorkflowRunPromise c = None
                      then [ListWorkflowRuns (owner c) (repo c) (workflow c) 1 ''success''] else [])"
    using run_calls[of E c w] assms by simp
  then have "length (calls_between w w1) \<le> 1"
    by (simp add: calls_between_def)
  moreover have "lastWorkflowRunPromise c1 \<noteq> None"
    using run_memoized[of E c w] assms by simp
  then have "snd (lastWorkflowRun E c1 w1) = (c1, w1)"
    by (rule run_again)
  ultimately show ?thesis by (simp add: run_state)
qed

lemma ref_twice:
  assumes "resolveRef E b (ref b) w = (r1, b1, w1)"
  shows "length (calls_between w w1) \<le> 1
       \<and> (\<not> isl r1 \<longrightarrow> snd (GitHubRepoAsset_version E b1 w1) = (b1, w1)
                       \<and> snd (GitHubRepoAsset_cacheId E b1 w1) = (b1, w1))"
proof -
  have "api_calls w1 = api_calls w @ (if refs b (ref b) = None then [GetRef (owner b) (repo b) (ref b)] else [])"
    using ref_calls[of E b "ref b" w] assms by simp
  then have n: "length (calls_between w w1) \<le> 1"
    by (simp add: calls_between_def)
  have k: "ref b1 = ref b" using ref_kept[of E b "ref b" w] assms by simp
  have "snd (resolveRef E b1 (ref b1) w1) = (b1, w1)" if "\<not> isl r1"
  proof -
    have "refs b1 (ref b) \<noteq> None"
      using ref_memoized[of E b "ref b" w] assms that by simp
    then show ?thesis unfolding k by (rule ref_again)
  qed
  with n show ?thesis by (simp add: ref_state)
qed

text \<open>
  C2 (as amended).  For a \<open>GitHubReleaseAsset\<close> and a \<open>GitHubWorkflowAsset\<close>, whatever
  the state of the instance and whatever the API answers: a query of \<open>version\<close> or of
  \<open>cacheId\<close> issues at most one API request, and a following query of either getter
  leaves the instance and the world as they are, so it issues none.  For a
  \<open>GitHubRepoAsset\<close> a query issues at most one request, and a following query issues
  none provided the first one resolved.
\<close>

theorem resolution_memoized:
  "(\<forall>r1 a1 w1. GitHubReleaseAsset_version E a w = (r1, a1, w1) \<longrightarrow>
       length (calls_between w w1) \<le> 1
       \<and> snd (GitHubReleaseAsset_version E a1 w1) = (a1, w1)
       \<and> snd (GitHubReleaseAsset_cacheId E a1 w1) = (a1, w1))
   \<and> (\<forall>r1 a1 w1. GitHubReleaseAsset_cacheId E a w = (r1, a1, w1) \<longrightarrow>
       length (calls_between w w1) \<le> 1
       \<and> snd (GitHubReleaseAsset_version E a1 w1) = (a1, w1)
       \<and> snd (GitHubReleaseAsset_cacheId E a1 w1) = (a1, w1))
   \<and> (\<forall>r1 c1 w1. GitHubWorkflowAsset_version E c w = (r1, c1, w1) \<longrightarrow>
       length (calls_between w w1) \<le> 1
       \<and> snd (GitHubWorkflowAsset_version E c1 w1) = (c1, w1)
       \<and> snd (GitHubWorkflowAsset_cacheId E c1 w1) = (c1, w1))
   \<and> (\<forall>r1 c1 w1. GitHubWorkflowAsset_cacheId E c w = (r1, c1, w1) \<longrightarrow>
       length (calls_between w w1) \<le> 1
       \<and> snd (GitHubWorkflowAsset_version E c1 w1) = (c1, w1)
       \<and> snd (GitHubWorkflowAsset_cacheId E c1 w1) = (c1, w1))
   \<and> (\<forall>r1 b1 w1. GitHubRepoAsset_version E b w = (r1, b1, w1) \<longrightarrow>
       length (calls_between w w1) \<le> 1
       \<and> (\<not> isl r1 \<longrightarrow> snd (GitHubRepoAsset_version E b1 w1) = (b1, w1)
                       \<and> snd (GitHubRepoAsset_cacheId E b1 w1) = (b1, w1)))
   \<and> (\<forall>r1 b1 w1. GitHubRepoAsset_cacheId E b w = (r1, b1, w1) \<longrightarrow>
       length (calls_between w w1) \<le> 1
       \<and> (\<not> isl r1 \<longrightarrow> snd (GitHubRepoAsset_version E b1 w1) = (b1, w1)
                       \<and> snd (GitHubRepoAsset_cacheId E b1 w1) = (b1, w1)))"
proof (intro conjI allI impI)
  fix r1 a1 w1 assume "GitHubReleaseAsset_version E a w = (r1, a1, w1)"
  then have s: "snd (release E a w) = (a1, w1)" using release_state(1)[of E a w] by simp
  from release_twice[OF s] show "length (calls_between w w1) \<le> 1"
    "snd (GitHubReleaseAsset_version E a1 w1) = (a1, w1)"
    "snd (GitHubReleaseAsset_cacheId E a1 w1) = (a1, w1)" by simp_all
next
  fix r1 a1 w1 assume "GitHubReleaseAsset_cacheId E a w = (r1, a1, w1)"
  then have s: "snd (release E a w) = (a1, w1)" using release_state(2)[of E a w] by simp
  from release_twice[OF s] show "length (calls_between w w1) \<le> 1"
    "snd (GitHubReleaseAsset_version E a1 w1) = (a1, w1)"
    "snd (GitHubReleaseAsset_cacheId E a1 w1) = (a1, w1)" by simp_all
next
  fix r1 c1 w1 assume "GitHubWorkflowAsset_version E c w = (r1, c1, w1)"
  then have s: "snd (lastWorkflowRun E c w) = (c1, w1)" using run_state(1)[of E c w] by simp
  from run_twice[OF s] show "length (calls_between w w1) \<le> 1"
    "snd (GitHubWorkflowAsset_version E c1 w1) = (c1, w1)"
    "snd (GitHubWorkflowAsset_cacheId E c1 w1) = (c1, w1)" by simp_all
next
  fix r1 c1 w1 assume "GitHubWorkflowAsset_cacheId E c w = (r1, c1, w1)"
  then have s: "snd (lastWorkflowRun E c w) = (c1, w1)" using run_state(2)[of E c w] by simp
  from run_twice[OF s] show "length (calls_between w w1) \<le> 1"
    "snd (GitHubWorkflowAsset_version E c1 w1) = (c1, w1)"
    "snd (GitHubWorkflowAsset_cacheId E c1 w1) = (c1, w1)" by simp_all
next
  fix r1 b1 w1 assume v: "GitHubRepoAsset_version E b w = (r1, b1, w1)"
  obtain r0 where s: "resolveRef E b (ref b) w = (r0, b1, w1)"
    using v ref_state(1)[of E b w] by (cases "resolveRef E b (ref b) w") simp
  have i: "isl r0 = isl r1" using v s ref_state(3)[of E b w] by simp
  from ref_twice[OF s] i show "length (calls_between w w1) \<le> 1"
    "\<not> isl r1 \<Longrightarrow> snd (GitHubRepoAsset_version E b1 w1) = (b1, w1)"
    "\<not> isl r1 \<Longrightarrow> snd (GitHubRepoAsset_cacheId E b1 w1) = (b1, w1)" by simp_all
next
  fix r1 b1 w1 assume v: "GitHubRepoAsset_cacheId E b w = (r1, b1, w1)"
  obtain r0 where s: "resolveRef E b (ref b) w = (r0, b1, w1)"
    using v ref_state(2)[of E b w] by (cases "resolveRef E b (ref b) w") simp
  have i: "isl r0 = isl r1" using v s ref_state(4)[of E b w] by simp
  from ref_twice[OF s] i show "length (calls_between w w1) \<le> 1"
    "\<not> isl r1 \<Longrightarrow> snd (GitHubRepoAsset_version E b1 w1) = (b1, w1)"
    "\<not> isl r1 \<Longrightarrow> snd (GitHubRepoAsset_cacheId E b1 w1) = (b1, w1)" by simp_all
qed

text \<open>
  Where the ref cannot be resolved nothing is memoized: two queries of \<open>version\<close> in a
  row on a \<open>GitHubRepoAsset\<close> issue two \<open>getRef\<close> requests.
\<close>

theorem ref_resolution_counterexample:
  "(case GitHubRepoAsset_version offline snapshot blank of
      (r1, b1, w1) \<Rightarrow> calls_between blank (snd (snd (GitHubRepoAsset_version offline b1 w1))))
   = [GetRef ''my-org'' ''my-tool'' ''main'', GetRef ''my-org'' ''my-tool'' ''main'']"
  by (simp add: GitHubRepoAsset_version_def resolveRef_def getOctokit_def called_def
        calls_between_def offline_def snapshot_def new_GitHubRepoAsset_def blank_def Let_def)


theorem resolution_memoized_witness:
  "fst (GitHubRepoAsset_version resolving snapshot blank) = Inr ''main@4f2a9c''
   \<and> (case GitHubRepoAsset_version resolving snapshot blank of
        (r1, b1, w1) \<Rightarrow>
          calls_between blank w1 = [GetRef ''my-org'' ''my-tool'' ''main'']
          \<and> snd (GitHubRepoAsset_version resolving b1 w1) = (b1, w1)
          \<and> snd (GitHubRepoAsset_cacheId resolving b1 w1) = (b1, w1))
   \<and> (case GitHubReleaseAsset_cacheId releasing (my_tool ''1.5.0'' ''my-tool-linux-x64'') blank of
        (r1, a1, w1) \<Rightarrow>
          calls_between blank w1 = [ListReleases ''my-org'' ''my-tool'']
          \<and> snd (GitHubReleaseAsset_version releasing a1 w1) = (a1, w1))
   \<and> (case GitHubWorkflowAsset_version building nightly blank of
        (r1, c1, w1) \<Rightarrow>
          calls_between blank w1 = [ListWorkflowRuns ''my-org'' ''my-tool'' ''build.yml'' 1 ''success'']
          \<and> snd (GitHubWorkflowAsset_cacheId building c1 w1) = (c1, w1))"
proof -
  obtain r1 b1 w1 where v: "GitHubRepoAsset_version resolving snapshot blank = (r1, b1, w1)"
    by (cases "GitHubRepoAsset_version resolving snapshot blank")
  have f: "fst (GitHubRepoAsset_version resolving snapshot blank) = Inr ''main@4f2a9c''"
    by (simp add: GitHubRepoAsset_version_def resolveRef_def getOctokit_def resolving_def
          snapshot_def new_GitHubRepoAsset_def Let_def)
  with v have r: "\<not> isl r1" by simp
  have l: "calls_between blank (snd (snd (GitHubRepoAsset_version resolving snapshot blank)))
             = [GetRef ''my-org'' ''my-tool'' ''main'']"
    by (simp add: ref_state ref_calls calls_between_def snapshot_def
          new_GitHubRepoAsset_def blank_def)
  obtain r2 a2 w2 where c: "GitHubReleaseAsset_cacheId releasing
                              (my_tool ''1.5.0'' ''my-tool-linux-x64'') blank = (r2, a2, w2)"
    by (cases "GitHubReleaseAsset_cacheId releasing (my_tool ''1.5.0'' ''my-tool-linux-x64'') blank")
  have l2: "calls_between blank (snd (snd (GitHubReleaseAsset_cacheId releasing
                              (my_tool ''1.5.0'' ''my-tool-linux-x64'') blank)))
             = [ListReleases ''my-org'' ''my-tool'']"
    by (simp add: release_state release_calls calls_between_def my_tool_def
          new_GitHubReleaseAsset_def blank_def)
  obtain r3 c3 w3 where n: "GitHubWorkflowAsset_version building nightly blank = (r3, c3, w3)"
    by (cases "GitHubWorkflowAsset_version building nightly blank")
  have l3: "calls_between blank (snd (snd (GitHubWorkflowAsset_version building nightly blank)))
             = [ListWorkflowRuns ''my-org'' ''my-tool'' ''build.yml'' 1 ''success'']"
    by (simp add: run_state run_calls calls_between_def nightly_def
          new_GitHubWorkflowAsset_def blank_def)
  from resolution_memoized[of resolving "my_tool ''1.5.0'' ''my-tool-linux-x64''" blank nightly snapshot]
       resolution_memoized[of releasing "my_tool ''1.5.0'' ''my-tool-linux-x64''" blank nightly snapshot]
       resolution_memoized[of building "my_tool ''1.5.0'' ''my-tool-linux-x64''" blank nightly snapshot]
       v r c n f l l2 l3
  show ?thesis by simp
qed

end
